theory Spec2Isabelle
  imports Main
begin

section \<open>Data model of \<open>media_downloader.py\<close>\<close>

text \<open>
  Exceptions are values. \<open>BadRequest\<close> is pyrogram's \<open>bad_request_400.BadRequest\<close>;
  \<open>TypeError\<close>, \<open>KeyError\<close>, \<open>IndexError\<close>, \<open>AttributeError\<close>, \<open>OSError\<close> and
  \<open>ValueError\<close> are Python's built-in ones; \<open>OtherException\<close> stands for any other
  subclass of \<open>Exception\<close> the remote client may raise.
\<close>

datatype exn =
    BadRequest | TypeError | KeyError | IndexError | AttributeError | OSError | ValueError
  | OtherException string

text \<open>
  A media object (\<open>Audio\<close>, \<open>Document\<close>, \<open>Photo\<close>, ...) with the attributes the
  module reads. \<open>date\<close> holds the text \<open>date.isoformat()\<close> returns; a missing attribute
  is \<open>None\<close>.
\<close>

record media_obj =
  mime_type :: "string option"
  file_name :: "string option"
  date :: "string option"

text \<open>
  A message: \<open>message.id\<close>, \<open>message.chat.id\<close>, \<open>message.media\<close> (the name of the media
  kind, \<open>None\<close> when the message has no media) and the attributes read by
  \<open>getattr(message, _type, None)\<close>, as an association list from attribute name to
  media object.
\<close>

record message =
  msg_id :: int
  chat :: int
  media :: "string option"
  attrs :: "(string \<times> media_obj) list"

text \<open>The keys of the configuration dictionary the module reads or writes.\<close>

record config =
  chat_id :: int
  last_read_message_id :: int
  ids_to_retry :: "int list"
  media_types :: "string list"
  file_formats :: "(string \<times> string list) list"

text \<open>The lines the module logs.\<close>

datatype log_line =
    FileIsEmpty string
  | FileIsSmall string nat
  | FailedTooSmallOrEmpty string int string
  | DownloadedSuccessfully string int nat
  | FailedFileReferenceExpired int
  | FailedTimeoutAfter3Retries int
  | FailedDueToException int exn
  | DownloadsFailed nat
  | ScriptStarted
  | ScriptEnded

text \<open>
  The effects of a run that can be observed from outside, in the order they happen:
  calls of the remote client, the back-off sleeps, file removals, batch dispatches,
  writes of the configuration file and log lines.
\<close>

datatype event =
    DownloadCall int string
  | GetMessages int
  | Sleep nat
  | Remove string
  | Gather "int list"
  | YamlDump string config
  | CopyFile string string
  | LogError log_line
  | LogInfo log_line

text \<open>
  What one call of \<open>client.download_media(message, file_name=...)\<close> does: it raises, it
  returns \<open>None\<close>, or it writes a file of some size and returns its path.
\<close>

datatype transfer_result = Raises exn | NoPath | Saved string nat

text \<open>
  The collaborators that are not part of the module: the remote client and the two
  helpers of \<open>utils.file_management\<close>. They are parameters. A call of the remote client
  may answer differently each time, so each answer depends on \<open>clock\<close>, the number of
  client calls made before it.
\<close>

record env =
  this_dir :: string
  client_download_media :: "nat \<Rightarrow> message \<Rightarrow> string \<Rightarrow> transfer_result"
  client_get_messages :: "nat \<Rightarrow> int \<Rightarrow> int \<Rightarrow> message"
  client_get_messages_list :: "int \<Rightarrow> int list \<Rightarrow> message list"
  client_get_chat_history :: "int \<Rightarrow> int \<Rightarrow> message list"
  get_next_name :: "(string \<rightharpoonup> nat) \<Rightarrow> string \<Rightarrow> string"
  manage_duplicate_file :: "(string \<rightharpoonup> nat) \<Rightarrow> string \<Rightarrow> (string \<rightharpoonup> nat) \<times> string"

text \<open>
  The mutable state: the module's globals \<open>FAILED_IDS\<close>, \<open>DOWNLOADED_IDS\<close> and
  \<open>TOTAL_FILES\<close>, the regular files on disk with their sizes, the directories, the
  clock of the remote client and the trace of events.
\<close>

record state =
  FAILED_IDS :: "int list"
  DOWNLOADED_IDS :: "int list"
  TOTAL_FILES :: nat
  files :: "string \<rightharpoonup> nat"
  dirs :: "string set"
  clock :: nat
  trace :: "event list"

definition emit :: "event \<Rightarrow> state \<Rightarrow> state" where
  "emit ev st = st\<lparr>trace := trace st @ [ev]\<rparr>"

section \<open>Strings and paths\<close>

text \<open>\<open>str(n)\<close> for an integer.\<close>

fun str_nat :: "nat \<Rightarrow> string" where
  "str_nat n =
     (if n < 10 then [''0123456789'' ! n]
      else str_nat (n div 10) @ [''0123456789'' ! (n mod 10)])"

definition str_int :: "int \<Rightarrow> string" where
  "str_int i = (if i < 0 then CHR ''-'' # str_nat (nat (- i)) else str_nat (nat i))"

text \<open>\<open>os.path.join(a, b)\<close> on POSIX.\<close>

definition path_join :: "string \<Rightarrow> string \<Rightarrow> string" where
  "path_join a b =
     (if b \<noteq> [] \<and> hd b = CHR ''/'' then b
      else if a = [] \<or> last a = CHR ''/'' then a @ b
      else a @ ''/'' @ b)"

definition DOWNLOADS_DIR :: "env \<Rightarrow> string" where
  "DOWNLOADS_DIR e = path_join (this_dir e) ''downloads''"

text \<open>\<open>s.split("/")[-1]\<close>: what follows the last slash.\<close>

definition last_component :: "string \<Rightarrow> string" where
  "last_component s = rev (takeWhile (\<lambda>c. c \<noteq> CHR ''/'') (rev s))"

definition endswith :: "string \<Rightarrow> string \<Rightarrow> bool" where
  "endswith s suffix =
     (length suffix \<le> length s \<and> drop (length s - length suffix) s = suffix)"

declare str_nat.simps [simp del]

section \<open>The helpers of the module\<close>

text \<open>
  \<open>_can_download\<close>. \<open>file_formats[_type]\<close> raises \<open>KeyError\<close> for a missing key and
  \<open>allowed_formats[0]\<close> raises \<open>IndexError\<close> on an empty list; Python's \<open>and\<close> evaluates
  its second operand only when the first one holds.
\<close>

definition can_download :: "string \<Rightarrow> (string \<times> string list) list \<Rightarrow> string option \<Rightarrow> exn + bool" where
  "can_download mtype formats file_format =
     (if mtype \<in> set [''audio'', ''document'', ''video''] then
        (case map_of formats mtype of
           None \<Rightarrow> Inl KeyError
         | Some allowed_formats \<Rightarrow>
             if \<not> (case file_format of None \<Rightarrow> False | Some f \<Rightarrow> f \<in> set allowed_formats) then
               (case allowed_formats of
                  [] \<Rightarrow> Inl IndexError
                | first # _ \<Rightarrow> if first \<noteq> ''all'' then Inr False else Inr True)
             else Inr True)
      else Inr True)"

text \<open>\<open>_is_exist\<close>: the path exists and is not a directory.\<close>

definition is_exist :: "state \<Rightarrow> string \<Rightarrow> bool" where
  "is_exist st file_path =
     (\<not> file_path \<in> dirs st \<and> (file_path \<in> dirs st \<or> files st file_path \<noteq> None))"

text \<open>
  \<open>_create_directories\<close>. \<open>os.makedirs(..., exist_ok=True)\<close> is taken to succeed; the
  parent directories it creates on the way are not tracked.
\<close>

definition create_directories :: "env \<Rightarrow> string \<Rightarrow> string \<Rightarrow> state \<Rightarrow> string \<times> state" where
  "create_directories e cid media_type st =
     (let dir_path = path_join (path_join (DOWNLOADS_DIR e) cid) media_type
      in (dir_path, st\<lparr>dirs := insert dir_path (dirs st)\<rparr>))"

text \<open>
  \<open>_is_valid_file\<close>. \<open>os.path.getsize\<close> raises \<open>OSError\<close> when there is no such file.
\<close>

definition is_valid_file :: "string \<Rightarrow> nat \<Rightarrow> state \<Rightarrow> (exn + bool) \<times> state" where
  "is_valid_file file_path min_size st =
     (case files st file_path of
        None \<Rightarrow> (Inl OSError, st)
      | Some file_size \<Rightarrow>
          if file_size = 0 then (Inr False, emit (LogError (FileIsEmpty file_path)) st)
          else if file_size < min_size then
            (Inr True, emit (LogInfo (FileIsSmall file_path file_size)) st)
          else (Inr True, st))"

text \<open>\<open>_sanitize_filename\<close>: one \<open>replace\<close> per invalid character, in order.\<close>

definition invalid_chars :: string where
  "invalid_chars =
     [CHR ''<'', CHR ''>'', CHR '':'', CHR 0x22, CHR ''/'', CHR 0x5C, CHR ''|'', CHR ''?'', CHR ''*'']"

definition sanitize_filename :: "string \<Rightarrow> string" where
  "sanitize_filename filename =
     foldl (\<lambda>name c. map (\<lambda>x. if x = c then CHR ''_'' else x) name) filename invalid_chars"

text \<open>
  \<open>_get_media_meta\<close>. Reading \<open>mime_type.split\<close> or \<open>date.isoformat\<close> of a missing
  attribute raises \<open>AttributeError\<close>; \<open>a or b\<close> takes \<open>b\<close> when \<open>a\<close> is \<open>None\<close> or empty.
\<close>

definition get_media_meta ::
  "env \<Rightarrow> media_obj \<Rightarrow> string \<Rightarrow> string \<Rightarrow> int \<Rightarrow> state \<Rightarrow> (exn + string \<times> string option) \<times> state" where
  "get_media_meta e mobj mtype cid message_id st =
     (case
        (if mtype \<in> set [''audio'', ''document'', ''video'', ''voice''] then
           (case mime_type mobj of
              None \<Rightarrow> Inl AttributeError
            | Some mt \<Rightarrow> Inr (Some (last_component mt), ''.'' @ last_component mt))
         else
           Inr (None, if mtype = ''photo'' then ''.jpg''
                      else if mtype = ''video_note'' then ''.mp4'' else []))
      of
        Inl ex \<Rightarrow> (Inl ex, st)
      | Inr (file_format, file_extension) \<Rightarrow>
          (case
             (if file_name mobj \<noteq> None \<and> file_name mobj \<noteq> Some [] then Inr (the (file_name mobj))
              else (case date mobj of
                      None \<Rightarrow> Inl AttributeError
                    | Some d \<Rightarrow> Inr (mtype @ ''_'' @ d)))
           of
             Inl ex \<Rightarrow> (Inl ex, st)
           | Inr original_file_name \<Rightarrow>
               (let sanitized = sanitize_filename original_file_name;
                    sanitized_file_name =
                      (if \<not> endswith sanitized file_extension then sanitized @ file_extension
                       else sanitized);
                    (dir_path, st1) = create_directories e cid mtype st
                in (Inr (path_join dir_path (str_int message_id @ ''_'' @ sanitized_file_name),
                         file_format), st1))))"

section \<open>\<open>download_media\<close>\<close>

text \<open>One call of the remote client's transfer: the clock advances, a saved file is on disk.\<close>

definition call_download_media :: "env \<Rightarrow> message \<Rightarrow> string \<Rightarrow> state \<Rightarrow> transfer_result \<times> state" where
  "call_download_media e msg fname st =
     (let r = client_download_media e (clock st) msg fname;
          st1 = emit (DownloadCall (msg_id msg) fname) (st\<lparr>clock := Suc (clock st)\<rparr>)
      in (r, case r of Saved p n \<Rightarrow> st1\<lparr>files := (files st1)(p \<mapsto> n)\<rparr> | _ \<Rightarrow> st1))"

definition call_get_messages :: "env \<Rightarrow> int \<Rightarrow> int \<Rightarrow> state \<Rightarrow> message \<times> state" where
  "call_get_messages e cid message_id st =
     (client_get_messages e (clock st) cid message_id,
      emit (GetMessages message_id) (st\<lparr>clock := Suc (clock st)\<rparr>))"

text \<open>
  The body of \<open>for _type in media_types\<close> for one \<open>_type\<close>: \<open>Some ex\<close> when it raises,
  \<open>None\<close> when the loop goes on with the next type. An empty path is false in
  \<open>if download_path\<close>, as \<open>None\<close> is.
\<close>

definition download_type ::
  "env \<Rightarrow> message \<Rightarrow> string \<Rightarrow> int \<Rightarrow> (string \<times> string list) list \<Rightarrow> string \<Rightarrow> state \<Rightarrow> exn option \<times> state" where
  "download_type e msg cid message_id formats mtype st =
     (case map_of (attrs msg) mtype of
        None \<Rightarrow> (None, st)
      | Some mobj \<Rightarrow>
          (case get_media_meta e mobj mtype cid message_id st of
             (Inl ex, st1) \<Rightarrow> (Some ex, st1)
           | (Inr (fname, file_format), st1) \<Rightarrow>
               (case can_download mtype formats file_format of
                  Inl ex \<Rightarrow> (Some ex, st1)
                | Inr False \<Rightarrow> (None, st1)
                | Inr True \<Rightarrow>
                    (case call_download_media e msg
                            (if is_exist st1 fname then get_next_name e (files st1) fname else fname) st1 of
                       (Raises ex, st2) \<Rightarrow> (Some ex, st2)
                     | (NoPath, st2) \<Rightarrow> (None, st2)
                     | (Saved download_path n, st2) \<Rightarrow>
                         if download_path = [] then (None, st2)
                         else
                           (case is_valid_file download_path 512 st2 of
                              (Inl ex, st3) \<Rightarrow> (Some ex, st3)
                            | (Inr False, st3) \<Rightarrow>
                                (let st4 = emit (Remove download_path)
                                             (st3\<lparr>files := (files st3)(download_path := None)\<rparr>);
                                     st5 = emit (LogError (FailedTooSmallOrEmpty download_path message_id cid)) st4
                                 in (None, st5\<lparr>FAILED_IDS := FAILED_IDS st5 @ [message_id]\<rparr>))
                            | (Inr True, st3) \<Rightarrow>
                                (let (files', path') = manage_duplicate_file e (files st3) download_path;
                                     st4 = emit (LogInfo (DownloadedSuccessfully path' message_id (TOTAL_FILES st3)))
                                             (st3\<lparr>files := files'\<rparr>)
                                 in (None, st4\<lparr>DOWNLOADED_IDS := DOWNLOADED_IDS st4 @ [message_id]\<rparr>)))))))"

text \<open>
  \<open>for _type in media_types\<close>: the first type that raises ends the loop with its
  exception.
\<close>

fun for_media_types ::
  "env \<Rightarrow> message \<Rightarrow> string \<Rightarrow> int \<Rightarrow> (string \<times> string list) list \<Rightarrow> string list \<Rightarrow> state \<Rightarrow> exn option \<times> state" where
  "for_media_types e msg cid message_id formats [] st = (None, st)"
| "for_media_types e msg cid message_id formats (mtype # rest) st =
     (case download_type e msg cid message_id formats mtype st of
        (Some ex, st1) \<Rightarrow> (Some ex, st1)
      | (None, st1) \<Rightarrow> for_media_types e msg cid message_id formats rest st1)"

definition record_failed :: "log_line \<Rightarrow> int \<Rightarrow> state \<Rightarrow> state" where
  "record_failed line message_id st =
     (let st1 = emit (LogError line) st in st1\<lparr>FAILED_IDS := FAILED_IDS st1 @ [message_id]\<rparr>)"

text \<open>
  \<open>for retry in range(3)\<close> with its \<open>try\<close>: the list holds the values of \<open>retry\<close> still to
  run, \<open>msg\<close> is the current value of the variable \<open>message\<close>, which the \<open>BadRequest\<close>
  handler replaces. The result is the returned id.
\<close>

fun for_retry ::
  "env \<Rightarrow> string list \<Rightarrow> (string \<times> string list) list \<Rightarrow> string \<Rightarrow> int \<Rightarrow> nat list \<Rightarrow> message \<Rightarrow> state \<Rightarrow> int \<times> state" where
  "for_retry e mtypes formats cid message_id [] msg st = (message_id, st)"
| "for_retry e mtypes formats cid message_id (retry # rest) msg st =
     (if media msg = None then (msg_id msg, st)
      else
        (case for_media_types e msg cid message_id formats mtypes st of
           (None, st1) \<Rightarrow> (message_id, st1)
         | (Some ex, st1) \<Rightarrow>
             (case ex of
                BadRequest \<Rightarrow>
                  (let (msg', st2) = call_get_messages e (chat msg) message_id st1;
                       st3 = (if retry = 2
                              then record_failed (FailedFileReferenceExpired message_id) message_id st2
                              else st2)
                   in for_retry e mtypes formats cid message_id rest msg' st3)
              | TypeError \<Rightarrow>
                  (let st2 = emit (Sleep 5) st1;
                       st3 = (if retry = 2
                              then record_failed (FailedTimeoutAfter3Retries message_id) message_id st2
                              else st2)
                   in for_retry e mtypes formats cid message_id rest msg st3)
              | _ \<Rightarrow> (message_id, record_failed (FailedDueToException message_id ex) message_id st1))))"

definition download_media ::
  "env \<Rightarrow> message \<Rightarrow> string list \<Rightarrow> (string \<times> string list) list \<Rightarrow> state \<Rightarrow> int \<times> state" where
  "download_media e msg mtypes formats st =
     for_retry e mtypes formats (str_int (chat msg)) (msg_id msg) [0, 1, 2] msg st"

section \<open>\<open>process_messages\<close>\<close>

text \<open>
  \<open>asyncio.gather\<close> over the batch. The downloads of a batch are cooperative tasks that
  interleave at their waits; the model runs them one after the other in the order of the
  batch, which is one of the schedules.
\<close>

fun gather :: "env \<Rightarrow> message list \<Rightarrow> string list \<Rightarrow> (string \<times> string list) list \<Rightarrow> state \<Rightarrow> int list \<times> state" where
  "gather e [] mtypes formats st = ([], st)"
| "gather e (msg # rest) mtypes formats st =
     (let (i, st1) = download_media e msg mtypes formats st;
          (more, st2) = gather e rest mtypes formats st1
      in (i # more, st2))"

text \<open>\<open>max(xs)\<close>: \<open>ValueError\<close> on an empty sequence.\<close>

definition py_max :: "int list \<Rightarrow> exn + int" where
  "py_max xs = (case xs of [] \<Rightarrow> Inl ValueError | x # rest \<Rightarrow> Inr (fold max rest x))"

definition process_messages ::
  "env \<Rightarrow> message list \<Rightarrow> string list \<Rightarrow> (string \<times> string list) list \<Rightarrow> state \<Rightarrow> (exn + int) \<times> state" where
  "process_messages e messages mtypes formats st =
     (let (message_ids, st1) = gather e messages mtypes formats (emit (Gather (map msg_id messages)) st)
      in (py_max message_ids, st1))"

section \<open>\<open>update_config\<close>\<close>

text \<open>
  \<open>list(set(a) - set(b))\<close>. Python leaves the order of the elements of a set open; the
  model keeps the order of first occurrence in \<open>a\<close>.
\<close>

definition list_set_minus :: "int list \<Rightarrow> int list \<Rightarrow> int list" where
  "list_set_minus a b = remdups (filter (\<lambda>x. x \<notin> set b) a)"

definition update_config :: "env \<Rightarrow> config \<Rightarrow> string \<Rightarrow> state \<Rightarrow> config \<times> state" where
  "update_config e cfg cid st =
     (let cfg1 = cfg\<lparr>ids_to_retry := list_set_minus (ids_to_retry cfg) (DOWNLOADED_IDS st) @ FAILED_IDS st\<rparr>;
          config_path = path_join (this_dir e) ''config.yaml'';
          st1 = emit (YamlDump config_path cfg1) st;
          chat_config_dir = path_join (DOWNLOADS_DIR e) cid;
          st2 = st1\<lparr>dirs := insert chat_config_dir (dirs st1)\<rparr>;
          chat_config_path = path_join chat_config_dir ''config.yaml''
      in (cfg1, emit (CopyFile config_path chat_config_path) st2))"

section \<open>\<open>begin_import\<close> and \<open>main\<close>\<close>

definition count_total_files :: "env \<Rightarrow> int \<Rightarrow> nat" where
  "count_total_files e cid = length (filter (\<lambda>m. media m \<noteq> None) (client_get_chat_history e cid 0))"

text \<open>
  \<open>async for message in messages_iter\<close>, over the messages the history still yields.
  The loop carries \<open>config\<close>, \<open>last_read_message_id\<close>, \<open>messages_list\<close> and
  \<open>pagination_count\<close>; an exception of \<open>process_messages\<close> leaves it.
\<close>

fun for_messages_iter ::
  "env \<Rightarrow> int \<Rightarrow> message list \<Rightarrow> config \<Rightarrow> int \<Rightarrow> message list \<Rightarrow> int \<Rightarrow> state
     \<Rightarrow> (exn + config \<times> int \<times> message list \<times> int) \<times> state" where
  "for_messages_iter e pagination_limit [] cfg last_read messages_list pagination_count st =
     (Inr (cfg, last_read, messages_list, pagination_count), st)"
| "for_messages_iter e pagination_limit (msg # rest) cfg last_read messages_list pagination_count st =
     (if pagination_count \<noteq> pagination_limit then
        for_messages_iter e pagination_limit rest cfg last_read (messages_list @ [msg])
          (pagination_count + 1) st
      else
        (case process_messages e messages_list (media_types cfg) (file_formats cfg) st of
           (Inl ex, st1) \<Rightarrow> (Inl ex, st1)
         | (Inr last_read', st1) \<Rightarrow>
             (let cfg1 = cfg\<lparr>last_read_message_id := last_read'\<rparr>;
                  (cfg2, st2) = update_config e cfg1 (str_int (chat_id cfg1)) st1
              in for_messages_iter e pagination_limit rest cfg2 last_read' [msg] 0 st2)))"

text \<open>
  \<open>begin_import\<close>. Starting and stopping the client is left out. The retry backlog is
  appended to \<open>messages_list\<close> one message at a time, each adding one to
  \<open>pagination_count\<close>.
\<close>

definition begin_import :: "env \<Rightarrow> config \<Rightarrow> int \<Rightarrow> state \<Rightarrow> (exn + config) \<times> state" where
  "begin_import e cfg pagination_limit st =
     (let st0 = st\<lparr>TOTAL_FILES := count_total_files e (chat_id cfg)\<rparr>;
          last_read = last_read_message_id cfg;
          messages_iter = client_get_chat_history e (chat_id cfg) last_read;
          skipped_messages =
            (if ids_to_retry cfg \<noteq> [] then client_get_messages_list e (chat_id cfg) (ids_to_retry cfg)
             else [])
      in (case for_messages_iter e pagination_limit messages_iter cfg last_read
                 skipped_messages (int (length skipped_messages)) st0 of
            (Inl ex, st1) \<Rightarrow> (Inl ex, st1)
          | (Inr (cfg1, last_read1, messages_list, pagination_count), st1) \<Rightarrow>
              if messages_list \<noteq> [] then
                (case process_messages e messages_list (media_types cfg1) (file_formats cfg1) st1 of
                   (Inl ex, st2) \<Rightarrow> (Inl ex, st2)
                 | (Inr last_read2, st2) \<Rightarrow> (Inr (cfg1\<lparr>last_read_message_id := last_read2\<rparr>), st2))
              else (Inr (cfg1\<lparr>last_read_message_id := last_read1\<rparr>), st1)))"

text \<open>
  \<open>main\<close>, from the loaded configuration on: the batch size is fixed to 100, and the
  configuration is written once more at the end. \<open>check_for_updates\<close> is left out.
\<close>

definition main :: "env \<Rightarrow> config \<Rightarrow> state \<Rightarrow> (exn + config) \<times> state" where
  "main e cfg st =
     (case begin_import e cfg 100 (emit (LogInfo ScriptStarted) st) of
        (Inl ex, st1) \<Rightarrow> (Inl ex, st1)
      | (Inr updated_config, st1) \<Rightarrow>
          (let st2 = (if FAILED_IDS st1 \<noteq> []
                      then emit (LogError (DownloadsFailed (card (set (FAILED_IDS st1))))) st1
                      else st1);
               (cfg2, st3) = update_config e updated_config (str_int (chat_id cfg)) st2
           in (Inr cfg2, emit (LogInfo ScriptEnded) st3)))"

section \<open>Reading a run\<close>

text \<open>The cursor written by each \<open>yaml.dump\<close>, and the batches handed to \<open>asyncio.gather\<close>.\<close>

fun checkpoint_cursors :: "event list \<Rightarrow> int list" where
  "checkpoint_cursors [] = []"
| "checkpoint_cursors (YamlDump p c # evs) = last_read_message_id c # checkpoint_cursors evs"
| "checkpoint_cursors (ev # evs) = checkpoint_cursors evs"

fun batch_sizes :: "event list \<Rightarrow> nat list" where
  "batch_sizes [] = []"
| "batch_sizes (Gather ids # evs) = length ids # batch_sizes evs"
| "batch_sizes (ev # evs) = batch_sizes evs"

fun batches :: "event list \<Rightarrow> int list list" where
  "batches [] = []"
| "batches (Gather ids # evs) = ids # batches evs"
| "batches (ev # evs) = batches evs"

text \<open>The file name the transfer is called with: \<open>get_next_name\<close> when the name is taken.\<close>

definition target_name :: "env \<Rightarrow> state \<Rightarrow> string \<Rightarrow> string" where
  "target_name e st fname = (if is_exist st fname then get_next_name e (files st) fname else fname)"

text \<open>The configured media types that the message carries, in the order of the configuration.\<close>

definition present_types :: "message \<Rightarrow> string list \<Rightarrow> string list" where
  "present_types msg mtypes = filter (\<lambda>t. map_of (attrs msg) t \<noteq> None) mtypes"

text \<open>What a step appends to \<open>FAILED_IDS\<close> and to \<open>DOWNLOADED_IDS\<close>.\<close>

definition adds :: "state \<Rightarrow> state \<Rightarrow> int list \<Rightarrow> int list \<Rightarrow> bool" where
  "adds st st' failed downloaded =
     (FAILED_IDS st' = FAILED_IDS st @ failed \<and> DOWNLOADED_IDS st' = DOWNLOADED_IDS st @ downloaded)"

text \<open>The id is appended at most once, to one of the two lists.\<close>

definition at_most_once :: "int \<Rightarrow> state \<Rightarrow> state \<Rightarrow> bool" where
  "at_most_once i st st' = (adds st st' [] [] \<or> adds st st' [i] [] \<or> adds st st' [] [i])"

text \<open>
  A fetch by id answers with a message of that id that carries at most one of the
  configured media types.
\<close>

definition refetch_ok :: "env \<Rightarrow> string list \<Rightarrow> bool" where
  "refetch_ok e mtypes =
     (\<forall>t c i. msg_id (client_get_messages e t c i) = i
              \<and> length (present_types (client_get_messages e t c i) mtypes) \<le> 1)"

section \<open>Concrete inputs\<close>

definition text_message :: "int \<Rightarrow> message" where
  "text_message i = \<lparr>msg_id = i, chat = 7, media = None, attrs = []\<rparr>"

definition photo_obj :: media_obj where
  "photo_obj = \<lparr>mime_type = None, file_name = None, date = Some ''2024-01-01T00:00:00''\<rparr>"

definition photo_message :: "int \<Rightarrow> message" where
  "photo_message i = \<lparr>msg_id = i, chat = 7, media = Some ''photo'', attrs = [(''photo'', photo_obj)]\<rparr>"

text \<open>
  A remote client whose transfer answers \<open>transfer\<close>, whose history is \<open>history\<close> and
  which answers a fetch by id with a photo message of that id; \<open>get_next_name\<close> appends
  a suffix and \<open>manage_duplicate_file\<close> keeps the file.
\<close>

definition sample_env :: "(nat \<Rightarrow> message \<Rightarrow> string \<Rightarrow> transfer_result) \<Rightarrow> message list \<Rightarrow> env" where
  "sample_env transfer history =
     \<lparr>this_dir = ''/app'',
      client_download_media = transfer,
      client_get_messages = (\<lambda>t c i. photo_message i),
      client_get_messages_list = (\<lambda>c ids. map photo_message ids),
      client_get_chat_history = (\<lambda>c offset. history),
      get_next_name = (\<lambda>fs p. p @ ''_1''),
      manage_duplicate_file = (\<lambda>fs p. (fs, p))\<rparr>"

definition init_state :: state where
  "init_state =
     \<lparr>FAILED_IDS = [], DOWNLOADED_IDS = [], TOTAL_FILES = 0, files = Map.empty, dirs = {},
      clock = 0, trace = []\<rparr>"

definition sample_config :: config where
  "sample_config =
     \<lparr>chat_id = 7, last_read_message_id = 0, ids_to_retry = [],
      media_types = [''photo'', ''video''],
      file_formats = [(''audio'', [''all'']), (''document'', [''all'']), (''video'', [''mp4''])]\<rparr>"

text \<open>The text messages with the ids \<open>lo\<close>, ..., \<open>hi - 1\<close>, in ascending order.\<close>

definition text_messages :: "nat \<Rightarrow> nat \<Rightarrow> message list" where
  "text_messages lo hi = map (\<lambda>n. text_message (int n)) [lo..<hi]"

text \<open>
  Transfers: one that saves 600 bytes, one that saves an empty file, one that saves an
  empty file on the first call and 600 bytes later, and one that always raises
  \<open>TypeError\<close>.
\<close>

definition saves_600 :: "nat \<Rightarrow> message \<Rightarrow> string \<Rightarrow> transfer_result" where
  "saves_600 t m p = Saved p 600"

definition saves_empty :: "nat \<Rightarrow> message \<Rightarrow> string \<Rightarrow> transfer_result" where
  "saves_empty t m p = Saved p 0"

definition empty_then_full :: "nat \<Rightarrow> message \<Rightarrow> string \<Rightarrow> transfer_result" where
  "empty_then_full t m p = (if t = 0 then Saved p 0 else Saved p 600)"

definition always_times_out :: "nat \<Rightarrow> message \<Rightarrow> string \<Rightarrow> transfer_result" where
  "always_times_out t m p = Raises TypeError"

section \<open>\<open>_can_download\<close>\<close>

lemma can_download_listed:
  assumes "mtype \<in> set [''audio'', ''document'', ''video'']"
    and "map_of formats mtype = Some (first # rest)"
    and "first \<noteq> ''all''"
  shows "can_download mtype formats (Some f) = Inr (f \<in> set (first # rest))"
    and "can_download mtype formats None = Inr False"
  using assms by (auto simp: can_download_def)

lemma can_download_all_first:
  assumes "map_of formats mtype = Some (''all'' # rest)"
  shows "can_download mtype formats file_format = Inr True"
  using assms by (auto simp: can_download_def split: option.splits)

text \<open>
  C4. For an allow-list whose first entry is not \<open>all\<close> the answer is to be the
  membership of the format in the list. On the empty allow-list no format is a member,
  so the answer is to be \<open>False\<close>; the code reads \<open>allowed_formats[0]\<close> there and
  raises \<open>IndexError\<close> instead of returning a \<open>bool\<close>. For the non-empty lists see
  \<open>can_download_listed\<close> and \<open>can_download_all_first\<close>.
\<close>

theorem can_download_empty_allow_list:
  "can_download ''audio'' [(''audio'', []), (''document'', [''all'']), (''video'', [''all''])]
     (Some ''mp3'') = Inl IndexError"
  by (simp add: can_download_def)

text \<open>
  C7, as stated: a kind whose allow-list is not configured is downloadable. For
  \<open>video\<close>, one of the three kinds the code looks up, a missing entry raises \<open>KeyError\<close>.
\<close>

theorem can_download_unset_counterexample:
  "map_of ([] :: (string \<times> string list) list) ''video'' = None
   \<and> can_download ''video'' [] (Some ''mp4'') = Inl KeyError"
  by (simp add: can_download_def)

text \<open>
  C7, amended: \<open>_can_download\<close> returns \<open>True\<close> whatever the format is for a kind whose
  allow-list starts with \<open>all\<close> (the list \<open>["all"]\<close> among them) and for every kind other
  than \<open>audio\<close>, \<open>document\<close> and \<open>video\<close>, configured or not; for \<open>audio\<close>, \<open>document\<close>
  or \<open>video\<close> without a configured allow-list the lookup raises \<open>KeyError\<close>.
\<close>

theorem can_download_all_or_not_governed:
  "(map_of formats mtype = Some (''all'' # rest) \<longrightarrow> can_download mtype formats file_format = Inr True)
   \<and> (mtype \<notin> set [''audio'', ''document'', ''video''] \<longrightarrow> can_download mtype formats file_format = Inr True)
   \<and> (mtype \<in> set [''audio'', ''document'', ''video''] \<and> map_of formats mtype = None
        \<longrightarrow> can_download mtype formats file_format = Inl KeyError)"
  by (auto simp: can_download_def split: option.splits)

text \<open>C7 at \<open>audio\<close> with \<open>["all"]\<close>, at \<open>photo\<close> and at \<open>document\<close> without an entry.\<close>

theorem can_download_all_or_not_governed_witness:
  "can_download ''audio'' [(''audio'', [''all''])] (Some ''mp3'') = Inr True
   \<and> can_download ''photo'' [] None = Inr True
   \<and> can_download ''document'' [] (Some ''pdf'') = Inl KeyError"
proof -
  have a: "can_download ''audio'' [(''audio'', [''all''])] (Some ''mp3'') = Inr True"
    using can_download_all_or_not_governed [of "[(''audio'', [''all''])]" "''audio''" "[]" "Some ''mp3''"]
    by simp
  have b: "can_download ''photo'' [] None = Inr True"
    using can_download_all_or_not_governed [of "[]" "''photo''" "[]" None]
    by simp
  have c: "can_download ''document'' [] (Some ''pdf'') = Inl KeyError"
    using can_download_all_or_not_governed [of "[]" "''document''" "[]" "Some ''pdf''"]
    by simp
  from a b c show ?thesis by simp
qed

section \<open>\<open>update_config\<close>\<close>

lemma set_list_set_minus: "set (list_set_minus a b) = set a - set b"
  by (auto simp: list_set_minus_def)

text \<open>
  C2. The retry list written by \<open>update_config\<close> is, as a set, the previous retry set
  minus the downloaded ids, united with the failed ids; from the retry list \<open>[5, 7]\<close>
  with 5 downloaded and 9 failed it is \<open>{7, 9}\<close>.
\<close>

theorem update_config_retry_set:
  "set (ids_to_retry (fst (update_config e cfg cid st)))
     = (set (ids_to_retry cfg) - set (DOWNLOADED_IDS st)) \<union> set (FAILED_IDS st)
   \<and> set (ids_to_retry (fst (update_config e (cfg\<lparr>ids_to_retry := [5, 7]\<rparr>) cid
                               (st\<lparr>DOWNLOADED_IDS := [5], FAILED_IDS := [9]\<rparr>)))) = {7, 9}"
  by (auto simp: update_config_def Let_def set_list_set_minus)

text \<open>
  \<open>FAILED_IDS\<close> is never reset, and \<open>update_config\<close> appends all of it on every call: an
  id that failed once is in the written list twice after the second call.
\<close>

lemma update_config_repeats_failed_ids:
  "ids_to_retry (fst (update_config e
       (fst (update_config e (cfg\<lparr>ids_to_retry := []\<rparr>) cid (st\<lparr>DOWNLOADED_IDS := [], FAILED_IDS := [9]\<rparr>)))
       cid (st\<lparr>DOWNLOADED_IDS := [], FAILED_IDS := [9]\<rparr>))) = [9, 9]"
  by (simp add: update_config_def Let_def list_set_minus_def)

section \<open>What the helpers leave unchanged\<close>

lemma emit_simps [simp]:
  "FAILED_IDS (emit ev st) = FAILED_IDS st"
  "DOWNLOADED_IDS (emit ev st) = DOWNLOADED_IDS st"
  "TOTAL_FILES (emit ev st) = TOTAL_FILES st"
  "files (emit ev st) = files st"
  "dirs (emit ev st) = dirs st"
  "clock (emit ev st) = clock st"
  "trace (emit ev st) = trace st @ [ev]"
  by (simp_all add: emit_def)

lemma record_failed_simps [simp]:
  "FAILED_IDS (record_failed line i st) = FAILED_IDS st @ [i]"
  "DOWNLOADED_IDS (record_failed line i st) = DOWNLOADED_IDS st"
  "files (record_failed line i st) = files st"
  "dirs (record_failed line i st) = dirs st"
  "clock (record_failed line i st) = clock st"
  "trace (record_failed line i st) = trace st @ [LogError line]"
  by (simp_all add: record_failed_def Let_def)

lemma get_media_meta_snd:
  "FAILED_IDS (snd (get_media_meta e mobj mtype cid message_id st)) = FAILED_IDS st"
  "DOWNLOADED_IDS (snd (get_media_meta e mobj mtype cid message_id st)) = DOWNLOADED_IDS st"
  "files (snd (get_media_meta e mobj mtype cid message_id st)) = files st"
  "clock (snd (get_media_meta e mobj mtype cid message_id st)) = clock st"
  "trace (snd (get_media_meta e mobj mtype cid message_id st)) = trace st"
  by (simp_all add: get_media_meta_def create_directories_def Let_def split: sum.splits option.splits prod.splits)

text \<open>The name and format computed by \<open>_get_media_meta\<close> do not depend on the state.\<close>

lemma get_media_meta_fst:
  "fst (get_media_meta e mobj mtype cid message_id st) = fst (get_media_meta e mobj mtype cid message_id st')"
  by (simp add: get_media_meta_def create_directories_def Let_def split: sum.splits option.splits prod.splits)

lemma get_media_meta_dirs:
  "fst (get_media_meta e mobj mtype cid message_id st) = Inr meta \<Longrightarrow>
   dirs (snd (get_media_meta e mobj mtype cid message_id st))
     = insert (path_join (path_join (DOWNLOADS_DIR e) cid) mtype) (dirs st)"
  by (simp add: get_media_meta_def create_directories_def Let_def split: sum.splits option.splits prod.splits if_splits)

lemma is_valid_file_snd:
  "FAILED_IDS (snd (is_valid_file p k st)) = FAILED_IDS st"
  "DOWNLOADED_IDS (snd (is_valid_file p k st)) = DOWNLOADED_IDS st"
  "files (snd (is_valid_file p k st)) = files st"
  "clock (snd (is_valid_file p k st)) = clock st"
  "dirs (snd (is_valid_file p k st)) = dirs st"
  "TOTAL_FILES (snd (is_valid_file p k st)) = TOTAL_FILES st"
  by (simp_all add: is_valid_file_def split: option.splits)

lemma is_valid_file_fst:
  "files st p = Some n \<Longrightarrow> fst (is_valid_file p k st) = Inr (n \<noteq> 0)"
  by (simp add: is_valid_file_def)

lemma call_download_media_snd:
  "FAILED_IDS (snd (call_download_media e msg fname st)) = FAILED_IDS st"
  "DOWNLOADED_IDS (snd (call_download_media e msg fname st)) = DOWNLOADED_IDS st"
  "TOTAL_FILES (snd (call_download_media e msg fname st)) = TOTAL_FILES st"
  "dirs (snd (call_download_media e msg fname st)) = dirs st"
  "clock (snd (call_download_media e msg fname st)) = Suc (clock st)"
  "trace (snd (call_download_media e msg fname st)) = trace st @ [DownloadCall (msg_id msg) fname]"
  by (simp_all add: call_download_media_def Let_def split: transfer_result.splits)

lemma call_download_media_fst:
  "fst (call_download_media e msg fname st) = client_download_media e (clock st) msg fname"
  by (simp add: call_download_media_def Let_def)

lemma call_download_media_files:
  "files (snd (call_download_media e msg fname st)) =
     (case client_download_media e (clock st) msg fname of
        Saved p n \<Rightarrow> (files st)(p \<mapsto> n) | _ \<Rightarrow> files st)"
  by (simp add: call_download_media_def Let_def split: transfer_result.splits)

lemma call_get_messages_simps:
  "fst (call_get_messages e c i st) = client_get_messages e (clock st) c i"
  "FAILED_IDS (snd (call_get_messages e c i st)) = FAILED_IDS st"
  "DOWNLOADED_IDS (snd (call_get_messages e c i st)) = DOWNLOADED_IDS st"
  "files (snd (call_get_messages e c i st)) = files st"
  "dirs (snd (call_get_messages e c i st)) = dirs st"
  "trace (snd (call_get_messages e c i st)) = trace st @ [GetMessages i]"
  by (simp_all add: call_get_messages_def)

lemma target_name_cong:
  "dirs a = dirs b \<Longrightarrow> files a = files b \<Longrightarrow> target_name e a fname = target_name e b fname"
  by (simp add: target_name_def is_exist_def)

section \<open>One media type of one message\<close>

lemma download_type_absent:
  "map_of (attrs msg) mtype = None \<Longrightarrow>
   download_type e msg cid message_id formats mtype st = (None, st)"
  by (simp add: download_type_def)

text \<open>
  The type is on the message, its name is computed and its format is allowed: what
  follows is decided by the answer of the transfer.
\<close>

lemma download_type_transfer:
  assumes "map_of (attrs msg) mtype = Some mobj"
    and "get_media_meta e mobj mtype cid message_id st = (Inr (fname, file_format), st1)"
    and "can_download mtype formats file_format = Inr True"
    and "call_download_media e msg (target_name e st1 fname) st1 = (r, st2)"
  shows "download_type e msg cid message_id formats mtype st =
     (case r of
        Raises ex \<Rightarrow> (Some ex, st2)
      | NoPath \<Rightarrow> (None, st2)
      | Saved download_path n \<Rightarrow>
          if download_path = [] then (None, st2)
          else
            (case is_valid_file download_path 512 st2 of
               (Inl ex, st3) \<Rightarrow> (Some ex, st3)
             | (Inr False, st3) \<Rightarrow>
                 (let st4 = emit (Remove download_path)
                              (st3\<lparr>files := (files st3)(download_path := None)\<rparr>);
                      st5 = emit (LogError (FailedTooSmallOrEmpty download_path message_id cid)) st4
                  in (None, st5\<lparr>FAILED_IDS := FAILED_IDS st5 @ [message_id]\<rparr>))
             | (Inr True, st3) \<Rightarrow>
                 (let (files', path') = manage_duplicate_file e (files st3) download_path;
                      st4 = emit (LogInfo (DownloadedSuccessfully path' message_id (TOTAL_FILES st3)))
                              (st3\<lparr>files := files'\<rparr>)
                  in (None, st4\<lparr>DOWNLOADED_IDS := DOWNLOADED_IDS st4 @ [message_id]\<rparr>))))"
  using assms by (simp add: download_type_def target_name_def)

lemma adds_refl: "adds st st [] []"
  by (simp add: adds_def)

lemma adds_trans:
  "adds st st1 f1 d1 \<Longrightarrow> adds st1 st2 f2 d2 \<Longrightarrow> adds st st2 (f1 @ f2) (d1 @ d2)"
  by (simp add: adds_def)

lemma adds_same:
  "FAILED_IDS st' = FAILED_IDS st \<Longrightarrow> DOWNLOADED_IDS st' = DOWNLOADED_IDS st \<Longrightarrow> adds st st' [] []"
  by (simp add: adds_def)

lemma adds_emit: "adds (emit ev st) st' failed downloaded = adds st st' failed downloaded"
  by (simp add: adds_def)

lemma at_most_once_shift:
  "FAILED_IDS st1 = FAILED_IDS st \<Longrightarrow> DOWNLOADED_IDS st1 = DOWNLOADED_IDS st \<Longrightarrow>
   at_most_once i st1 st' \<Longrightarrow> at_most_once i st st'"
  by (simp add: at_most_once_def adds_def)

text \<open>One type appends nothing, or the id to one of the two lists and then goes on.\<close>

lemma download_type_records:
  assumes "download_type e msg cid message_id formats mtype st = (r, st')"
  shows "adds st st' [] [] \<or> (r = None \<and> (adds st st' [message_id] [] \<or> adds st st' [] [message_id]))"
proof (cases "map_of (attrs msg) mtype")
  case None
  with assms show ?thesis by (simp add: download_type_absent adds_refl)
next
  case (Some mobj)
  obtain r1 st1 where m: "get_media_meta e mobj mtype cid message_id st = (r1, st1)"
    by (cases "get_media_meta e mobj mtype cid message_id st")
  have f1: "FAILED_IDS st1 = FAILED_IDS st" "DOWNLOADED_IDS st1 = DOWNLOADED_IDS st"
    using get_media_meta_snd(1,2) [of e mobj mtype cid message_id st] m by simp_all
  show ?thesis
  proof (cases r1)
    case (Inl ex)
    with assms Some m f1 show ?thesis by (simp add: download_type_def adds_def)
  next
    case (Inr meta)
    obtain fname file_format where meta: "meta = (fname, file_format)" by (cases meta)
    show ?thesis
    proof (cases "can_download mtype formats file_format = Inr True")
      case False
      with assms Some m f1 Inr meta show ?thesis
        by (auto simp: download_type_def adds_def split: sum.splits bool.splits)
    next
      case True
      obtain r2 st2 where c: "call_download_media e msg (target_name e st1 fname) st1 = (r2, st2)"
        by (cases "call_download_media e msg (target_name e st1 fname) st1")
      have f2: "FAILED_IDS st2 = FAILED_IDS st" "DOWNLOADED_IDS st2 = DOWNLOADED_IDS st"
        using call_download_media_snd(1,2) [of e msg "target_name e st1 fname" st1] c f1 by simp_all
      note dt = download_type_transfer [OF Some m [unfolded Inr meta] True c]
      show ?thesis
      proof (cases r2)
        case (Raises ex)
        with assms dt f2 show ?thesis by (simp add: adds_def)
      next
        case NoPath
        with assms dt f2 show ?thesis by (simp add: adds_def)
      next
        case (Saved p n)
        obtain r3 st3 where v: "is_valid_file p 512 st2 = (r3, st3)"
          by (cases "is_valid_file p 512 st2")
        have f3: "FAILED_IDS st3 = FAILED_IDS st" "DOWNLOADED_IDS st3 = DOWNLOADED_IDS st"
          using is_valid_file_snd(1,2) [of p 512 st2] v f2 by simp_all
        from assms dt Saved v f2 f3 show ?thesis
          by (auto simp: adds_def Let_def split: sum.splits bool.splits prod.splits if_splits)
      qed
    qed
  qed
qed

lemma for_media_types_absent:
  "present_types msg mtypes = [] \<Longrightarrow>
   for_media_types e msg cid message_id formats mtypes st = (None, st)"
  by (induction mtypes) (auto simp: present_types_def download_type_absent split: if_splits)

lemma for_media_types_skip:
  "\<forall>t\<in>set absent. map_of (attrs msg) t = None \<Longrightarrow>
   for_media_types e msg cid message_id formats (absent @ rest) st
     = for_media_types e msg cid message_id formats rest st"
  by (induction absent) (simp_all add: download_type_absent)

lemma for_media_types_records:
  assumes "length (present_types msg mtypes) \<le> 1"
    and "for_media_types e msg cid message_id formats mtypes st = (r, st')"
  shows "adds st st' [] [] \<or> (r = None \<and> (adds st st' [message_id] [] \<or> adds st st' [] [message_id]))"
  using assms
proof (induction mtypes arbitrary: st)
  case Nil
  then show ?case by (simp add: adds_refl)
next
  case (Cons mtype rest)
  show ?case
  proof (cases "map_of (attrs msg) mtype")
    case None
    with Cons.prems have "length (present_types msg rest) \<le> 1"
      and "for_media_types e msg cid message_id formats rest st = (r, st')"
      by (simp_all add: present_types_def download_type_absent)
    then show ?thesis by (rule Cons.IH)
  next
    case (Some mobj)
    with Cons.prems(1) have rest: "present_types msg rest = []"
      by (simp add: present_types_def)
    obtain r1 st1 where d: "download_type e msg cid message_id formats mtype st = (r1, st1)"
      by (cases "download_type e msg cid message_id formats mtype st")
    with Cons.prems(2) rest have "r = r1" "st' = st1"
      by (auto simp: for_media_types_absent split: option.splits)
    with download_type_records [OF d] show ?thesis by simp
  qed
qed

section \<open>\<open>download_media\<close>: a message without media\<close>

text \<open>
  C8. For a message without media \<open>download_media\<close> returns the id of the message at
  once: the state is the one it started from, so neither \<open>FAILED_IDS\<close> nor
  \<open>DOWNLOADED_IDS\<close> changes, no client call is made and nothing is logged.
\<close>

theorem download_media_no_media:
  "media msg = None \<Longrightarrow> download_media e msg mtypes formats st = (msg_id msg, st)"
  by (simp add: download_media_def)

text \<open>C8 at a text message with the id 3.\<close>

theorem download_media_no_media_witness:
  "download_media (sample_env (\<lambda>t m p. Saved p 600) []) (text_message 3) [''photo'', ''video'']
     (file_formats sample_config) init_state = (3, init_state)"
  using download_media_no_media [of "text_message 3" "sample_env (\<lambda>t m p. Saved p 600) []"
          "[''photo'', ''video'']" "file_formats sample_config" init_state]
  by (simp add: text_message_def)

section \<open>\<open>download_media\<close>: the transfer times out\<close>

text \<open>One round of the retry loop when the transfer raises \<open>TypeError\<close>.\<close>

lemma timeout_round:
  assumes absent: "\<forall>t\<in>set absent. map_of (attrs msg) t = None"
    and present: "map_of (attrs msg) mtype = Some mobj"
    and meta: "fst (get_media_meta e mobj mtype cid message_id st) = Inr (fname, file_format)"
    and allowed: "can_download mtype formats file_format = Inr True"
    and timeout: "\<forall>t m p. client_download_media e t m p = Raises TypeError"
    and fs: "files s = files st"
    and ds: "insert (path_join (path_join (DOWNLOADS_DIR e) cid) mtype) (dirs s)
               = insert (path_join (path_join (DOWNLOADS_DIR e) cid) mtype) (dirs st)"
  shows "\<exists>s2. for_media_types e msg cid message_id formats (absent @ mtype # rest) s = (Some TypeError, s2)
           \<and> trace s2 = trace s @ [DownloadCall (msg_id msg)
                                     (target_name e (snd (get_media_meta e mobj mtype cid message_id st)) fname)]
           \<and> FAILED_IDS s2 = FAILED_IDS s \<and> DOWNLOADED_IDS s2 = DOWNLOADED_IDS s
           \<and> files s2 = files st
           \<and> dirs s2 = insert (path_join (path_join (DOWNLOADS_DIR e) cid) mtype) (dirs st)"
proof -
  let ?d = "path_join (path_join (DOWNLOADS_DIR e) cid) mtype"
  let ?s1 = "snd (get_media_meta e mobj mtype cid message_id s)"
  let ?t1 = "snd (get_media_meta e mobj mtype cid message_id st)"
  have meta_s: "fst (get_media_meta e mobj mtype cid message_id s) = Inr (fname, file_format)"
    using meta get_media_meta_fst [of e mobj mtype cid message_id s st] by simp
  then have m: "get_media_meta e mobj mtype cid message_id s = (Inr (fname, file_format), ?s1)"
    by (simp add: prod_eq_iff)
  have d1: "dirs ?s1 = insert ?d (dirs st)"
    using get_media_meta_dirs [OF meta_s] ds by simp
  have dt: "dirs ?t1 = insert ?d (dirs st)"
    using get_media_meta_dirs [OF meta] by simp
  have f1: "files ?s1 = files st" "files ?t1 = files st"
    using fs by (simp_all add: get_media_meta_snd)
  have name: "target_name e ?s1 fname = target_name e ?t1 fname"
    by (rule target_name_cong) (simp_all add: d1 dt f1)
  let ?s2 = "snd (call_download_media e msg (target_name e ?s1 fname) ?s1)"
  have r: "fst (call_download_media e msg (target_name e ?s1 fname) ?s1) = Raises TypeError"
    using timeout by (simp add: call_download_media_fst)
  then have c: "call_download_media e msg (target_name e ?s1 fname) ?s1 = (Raises TypeError, ?s2)"
    by (simp add: prod_eq_iff)
  have "download_type e msg cid message_id formats mtype s = (Some TypeError, ?s2)"
    using download_type_transfer [OF present m allowed c] by simp
  then have "for_media_types e msg cid message_id formats (absent @ mtype # rest) s = (Some TypeError, ?s2)"
    by (simp add: for_media_types_skip [OF absent])
  moreover have "trace ?s2 = trace s @ [DownloadCall (msg_id msg) (target_name e ?t1 fname)]"
    by (simp add: call_download_media_snd get_media_meta_snd name)
  moreover have "FAILED_IDS ?s2 = FAILED_IDS s" "DOWNLOADED_IDS ?s2 = DOWNLOADED_IDS s"
    by (simp_all add: call_download_media_snd get_media_meta_snd)
  moreover have "files ?s2 = files st"
    using timeout by (simp add: call_download_media_files f1)
  moreover have "dirs ?s2 = insert ?d (dirs st)"
    by (simp add: call_download_media_snd d1)
  ultimately show ?thesis by blast
qed

text \<open>
  C1. The message has media, the first configured type it carries is allowed, and every
  call of the transfer raises \<open>TypeError\<close>. Then \<open>download_media\<close> calls the transfer
  exactly three times, each time with the same file name, sleeps 5 after each of the
  three calls (so also between two calls), logs the timeout and appends the id to
  \<open>FAILED_IDS\<close> exactly once; \<open>DOWNLOADED_IDS\<close> does not change.
\<close>

theorem download_media_timeout_exhausted:
  assumes has_media: "media msg \<noteq> None"
    and types: "mtypes = absent @ mtype # rest"
    and absent: "\<forall>t\<in>set absent. map_of (attrs msg) t = None"
    and present: "map_of (attrs msg) mtype = Some mobj"
    and meta: "fst (get_media_meta e mobj mtype (str_int (chat msg)) (msg_id msg) st) = Inr (fname, file_format)"
    and allowed: "can_download mtype formats file_format = Inr True"
    and timeout: "\<forall>t m p. client_download_media e t m p = Raises TypeError"
  shows "\<exists>st' p. download_media e msg mtypes formats st = (msg_id msg, st')
           \<and> trace st' = trace st @
                [DownloadCall (msg_id msg) p, Sleep 5,
                 DownloadCall (msg_id msg) p, Sleep 5,
                 DownloadCall (msg_id msg) p, Sleep 5,
                 LogError (FailedTimeoutAfter3Retries (msg_id msg))]
           \<and> FAILED_IDS st' = FAILED_IDS st @ [msg_id msg]
           \<and> DOWNLOADED_IDS st' = DOWNLOADED_IDS st"
proof -
  let ?cid = "str_int (chat msg)" and ?id = "msg_id msg"
  let ?d = "path_join (path_join (DOWNLOADS_DIR e) ?cid) mtype"
  let ?p = "target_name e (snd (get_media_meta e mobj mtype ?cid ?id st)) fname"
  note round = timeout_round [OF absent present meta allowed timeout, where rest = rest]
  from round [of st] obtain a where
    a: "for_media_types e msg ?cid ?id formats mtypes st = (Some TypeError, a)"
    and ta: "trace a = trace st @ [DownloadCall ?id ?p]"
    and la: "FAILED_IDS a = FAILED_IDS st" "DOWNLOADED_IDS a = DOWNLOADED_IDS st"
    and fa: "files a = files st" and da: "dirs a = insert ?d (dirs st)"
    unfolding types by auto
  from round [of "emit (Sleep 5) a"] fa da obtain b where
    b: "for_media_types e msg ?cid ?id formats mtypes (emit (Sleep 5) a) = (Some TypeError, b)"
    and tb: "trace b = trace (emit (Sleep 5) a) @ [DownloadCall ?id ?p]"
    and lb: "FAILED_IDS b = FAILED_IDS a" "DOWNLOADED_IDS b = DOWNLOADED_IDS a"
    and fb: "files b = files st" and db: "dirs b = insert ?d (dirs st)"
    unfolding types by auto
  from round [of "emit (Sleep 5) b"] fb db obtain c where
    c: "for_media_types e msg ?cid ?id formats mtypes (emit (Sleep 5) b) = (Some TypeError, c)"
    and tc: "trace c = trace (emit (Sleep 5) b) @ [DownloadCall ?id ?p]"
    and lc: "FAILED_IDS c = FAILED_IDS b" "DOWNLOADED_IDS c = DOWNLOADED_IDS b"
    unfolding types by auto
  let ?st' = "record_failed (FailedTimeoutAfter3Retries ?id) ?id (emit (Sleep 5) c)"
  have "download_media e msg mtypes formats st = (?id, ?st')"
    by (simp add: download_media_def has_media a b c Let_def)
  moreover have "trace ?st' = trace st @
      [DownloadCall ?id ?p, Sleep 5, DownloadCall ?id ?p, Sleep 5, DownloadCall ?id ?p, Sleep 5,
       LogError (FailedTimeoutAfter3Retries ?id)]"
    by (simp add: ta tb tc)
  moreover have "FAILED_IDS ?st' = FAILED_IDS st @ [?id]" "DOWNLOADED_IDS ?st' = DOWNLOADED_IDS st"
    by (simp_all add: la lb lc)
  ultimately show ?thesis by blast
qed

lemma photo_meta:
  "fst (get_media_meta (sample_env transfer history) photo_obj ''photo''
          (str_int (chat (photo_message 9))) (msg_id (photo_message 9)) init_state)
     = Inr (''/app/downloads/7/photo/9_photo_2024-01-01T00_00_00.jpg'', None)"
  by code_simp

text \<open>C1 at a photo message with the id 9 and the configured types \<open>video\<close>, \<open>photo\<close>.\<close>

theorem download_media_timeout_exhausted_witness:
  "\<exists>st' p. download_media (sample_env always_times_out []) (photo_message 9) [''video'', ''photo'']
              (file_formats sample_config) init_state = (9, st')
           \<and> trace st' =
                [DownloadCall 9 p, Sleep 5, DownloadCall 9 p, Sleep 5, DownloadCall 9 p, Sleep 5,
                 LogError (FailedTimeoutAfter3Retries 9)]
           \<and> FAILED_IDS st' = [9]
           \<and> DOWNLOADED_IDS st' = []"
proof -
  have has_media: "media (photo_message 9) \<noteq> None"
    by (simp add: photo_message_def)
  have types: "[''video'', ''photo''] = [''video''] @ ''photo'' # []"
    by simp
  have absent: "\<forall>t\<in>set [''video'']. map_of (attrs (photo_message 9)) t = None"
    by (simp add: photo_message_def)
  have present: "map_of (attrs (photo_message 9)) ''photo'' = Some photo_obj"
    by (simp add: photo_message_def)
  have allowed: "can_download ''photo'' (file_formats sample_config) None = Inr True"
    by (simp add: can_download_def)
  have timeout: "\<forall>t m p. client_download_media (sample_env always_times_out []) t m p = Raises TypeError"
    by (simp add: sample_env_def always_times_out_def)
  from download_media_timeout_exhausted [OF has_media types absent present photo_meta allowed timeout]
  show ?thesis by (simp add: photo_message_def init_state_def)
qed

section \<open>\<open>download_media\<close>: the downloaded file is checked\<close>

text \<open>
  C5. The message carries one configured type, which is allowed, and the transfer saves
  a file of \<open>file_size\<close> bytes at \<open>path\<close>. If the file is empty, \<open>download_media\<close> logs
  it, removes the file and appends the id to \<open>FAILED_IDS\<close>. If it is not empty,
  whatever its size, the id is appended to \<open>DOWNLOADED_IDS\<close> and nothing is removed;
  below 512 bytes (the default \<open>min_size\<close>) one more line is logged. A file of 600 bytes is
  above that default and is accepted without that line.
\<close>

theorem download_media_validates_file:
  assumes has_media: "media msg \<noteq> None"
    and types: "mtypes = before @ mtype # rest"
    and absent: "\<forall>t\<in>set before. map_of (attrs msg) t = None"
    and absent_rest: "present_types msg rest = []"
    and present: "map_of (attrs msg) mtype = Some mobj"
    and meta: "fst (get_media_meta e mobj mtype (str_int (chat msg)) (msg_id msg) st) = Inr (fname, file_format)"
    and allowed: "can_download mtype formats file_format = Inr True"
    and saved: "client_download_media e (clock st) msg
                  (target_name e (snd (get_media_meta e mobj mtype (str_int (chat msg)) (msg_id msg) st)) fname)
                = Saved path file_size"
    and path: "path \<noteq> []"
  shows "\<exists>st' p. download_media e msg mtypes formats st = (msg_id msg, st')
     \<and> (file_size = 0 \<longrightarrow>
          files st' path = None
          \<and> FAILED_IDS st' = FAILED_IDS st @ [msg_id msg]
          \<and> DOWNLOADED_IDS st' = DOWNLOADED_IDS st
          \<and> trace st' = trace st @
               [DownloadCall (msg_id msg) p, LogError (FileIsEmpty path), Remove path,
                LogError (FailedTooSmallOrEmpty path (msg_id msg) (str_int (chat msg)))])
     \<and> (file_size \<noteq> 0 \<longrightarrow>
          DOWNLOADED_IDS st' = DOWNLOADED_IDS st @ [msg_id msg]
          \<and> FAILED_IDS st' = FAILED_IDS st
          \<and> trace st' = trace st @
               [DownloadCall (msg_id msg) p]
               @ (if file_size < 512 then [LogInfo (FileIsSmall path file_size)] else [])
               @ [LogInfo (DownloadedSuccessfully
                    (snd (manage_duplicate_file e ((files st)(path \<mapsto> file_size)) path))
                    (msg_id msg) (TOTAL_FILES st))])"
proof -
  let ?cid = "str_int (chat msg)" and ?id = "msg_id msg"
  let ?s1 = "snd (get_media_meta e mobj mtype ?cid ?id st)"
  let ?p = "target_name e ?s1 fname"
  let ?s2 = "snd (call_download_media e msg ?p ?s1)"
  have m: "get_media_meta e mobj mtype ?cid ?id st = (Inr (fname, file_format), ?s1)"
    using meta by (simp add: prod_eq_iff)
  have r: "fst (call_download_media e msg ?p ?s1) = Saved path file_size"
    using saved by (simp add: call_download_media_fst get_media_meta_snd)
  then have c: "call_download_media e msg ?p ?s1 = (Saved path file_size, ?s2)"
    by (simp add: prod_eq_iff)
  have f2: "files ?s2 = (files st)(path \<mapsto> file_size)"
    using saved by (simp add: call_download_media_files get_media_meta_snd)
  have t2: "trace ?s2 = trace st @ [DownloadCall ?id ?p]"
    by (simp add: call_download_media_snd get_media_meta_snd)
  have l2: "FAILED_IDS ?s2 = FAILED_IDS st" "DOWNLOADED_IDS ?s2 = DOWNLOADED_IDS st"
    by (simp_all add: call_download_media_snd get_media_meta_snd)
  have tf: "TOTAL_FILES ?s2 = TOTAL_FILES st"
    by (simp add: call_download_media_snd get_media_meta_def create_directories_def Let_def
          split: sum.splits option.splits prod.splits)
  note dt = download_type_transfer [OF present m allowed c, simplified]
  obtain r1 st1 where d: "download_type e msg ?cid ?id formats mtype st = (r1, st1)"
    by (cases "download_type e msg ?cid ?id formats mtype st")
  have loop: "for_media_types e msg ?cid ?id formats mtypes st
                = (case r1 of Some ex \<Rightarrow> (Some ex, st1) | None \<Rightarrow> (None, st1))"
    unfolding types
    by (simp add: for_media_types_skip [OF absent] d for_media_types_absent [OF absent_rest]
          split: option.splits)
  show ?thesis
  proof (cases "file_size = 0")
    case True
    have v: "is_valid_file path 512 ?s2 =
               (Inr False, emit (LogError (FileIsEmpty path)) ?s2)"
      by (simp add: is_valid_file_def f2 True)
    from dt d path v have r1: "r1 = None"
      and st1: "st1 = (emit (LogError (FailedTooSmallOrEmpty path ?id ?cid))
                        (emit (Remove path)
                          ((emit (LogError (FileIsEmpty path)) ?s2)
                             \<lparr>files := (files (emit (LogError (FileIsEmpty path)) ?s2))(path := None)\<rparr>)))
                      \<lparr>FAILED_IDS := FAILED_IDS ?s2 @ [?id]\<rparr>"
      by (simp_all add: Let_def)
    have "download_media e msg mtypes formats st = (?id, st1)"
      by (simp add: download_media_def has_media loop r1)
    moreover have "files st1 path = None"
      by (simp add: st1)
    moreover have "FAILED_IDS st1 = FAILED_IDS st @ [?id]" "DOWNLOADED_IDS st1 = DOWNLOADED_IDS st"
      by (simp_all add: st1 l2)
    moreover have "trace st1 = trace st @
               [DownloadCall ?id ?p, LogError (FileIsEmpty path), Remove path,
                LogError (FailedTooSmallOrEmpty path ?id ?cid)]"
      by (simp add: st1 t2)
    ultimately show ?thesis using True by blast
  next
    case False
    let ?s3 = "if file_size < 512 then emit (LogInfo (FileIsSmall path file_size)) ?s2 else ?s2"
    have v: "is_valid_file path 512 ?s2 = (Inr True, ?s3)"
      by (simp add: is_valid_file_def f2 False)
    obtain files' path' where md: "manage_duplicate_file e ((files st)(path \<mapsto> file_size)) path = (files', path')"
      by (cases "manage_duplicate_file e ((files st)(path \<mapsto> file_size)) path")
    have f3: "files ?s3 = (files st)(path \<mapsto> file_size)" using f2 by simp
    have tf3: "TOTAL_FILES ?s3 = TOTAL_FILES st" using tf by simp
    from dt d path v md f3 tf3 have r1: "r1 = None"
      and st1: "st1 = (emit (LogInfo (DownloadedSuccessfully path' ?id (TOTAL_FILES st)))
                        (?s3\<lparr>files := files'\<rparr>))
                      \<lparr>DOWNLOADED_IDS := DOWNLOADED_IDS ?s3 @ [?id]\<rparr>"
      by (simp_all add: Let_def)
    have "download_media e msg mtypes formats st = (?id, st1)"
      by (simp add: download_media_def has_media loop r1)
    moreover have "DOWNLOADED_IDS st1 = DOWNLOADED_IDS st @ [?id]" "FAILED_IDS st1 = FAILED_IDS st"
      by (simp_all add: st1 l2)
    moreover have "trace st1 = trace st @ [DownloadCall ?id ?p]
               @ (if file_size < 512 then [LogInfo (FileIsSmall path file_size)] else [])
               @ [LogInfo (DownloadedSuccessfully
                    (snd (manage_duplicate_file e ((files st)(path \<mapsto> file_size)) path)) ?id (TOTAL_FILES st))]"
      by (simp add: st1 t2 md)
    ultimately show ?thesis using False by blast
  qed
qed

lemma photo_target:
  "target_name (sample_env transfer history)
     (snd (get_media_meta (sample_env transfer history) photo_obj ''photo''
             (str_int (chat (photo_message 9))) (msg_id (photo_message 9)) init_state))
     ''/app/downloads/7/photo/9_photo_2024-01-01T00_00_00.jpg''
   = ''/app/downloads/7/photo/9_photo_2024-01-01T00_00_00.jpg''"
  by code_simp

text \<open>C5 at a photo message with the id 9, for a file of 0 bytes and for one of 600 bytes.\<close>

theorem download_media_validates_file_witness:
  "(\<exists>st' p. download_media (sample_env saves_empty []) (photo_message 9) [''video'', ''photo'']
               (file_formats sample_config) init_state = (9, st')
      \<and> files st' ''/app/downloads/7/photo/9_photo_2024-01-01T00_00_00.jpg'' = None
      \<and> FAILED_IDS st' = [9] \<and> DOWNLOADED_IDS st' = []
      \<and> trace st' =
           [DownloadCall 9 p,
            LogError (FileIsEmpty ''/app/downloads/7/photo/9_photo_2024-01-01T00_00_00.jpg''),
            Remove ''/app/downloads/7/photo/9_photo_2024-01-01T00_00_00.jpg'',
            LogError (FailedTooSmallOrEmpty ''/app/downloads/7/photo/9_photo_2024-01-01T00_00_00.jpg'' 9 ''7'')])
   \<and> (\<exists>st' p. download_media (sample_env saves_600 []) (photo_message 9) [''video'', ''photo'']
               (file_formats sample_config) init_state = (9, st')
      \<and> DOWNLOADED_IDS st' = [9] \<and> FAILED_IDS st' = []
      \<and> trace st' =
           [DownloadCall 9 p,
            LogInfo (DownloadedSuccessfully ''/app/downloads/7/photo/9_photo_2024-01-01T00_00_00.jpg'' 9 0)])"
proof -
  let ?f = "''/app/downloads/7/photo/9_photo_2024-01-01T00_00_00.jpg''"
  have has_media: "media (photo_message 9) \<noteq> None"
    by (simp add: photo_message_def)
  have types: "[''video'', ''photo''] = [''video''] @ ''photo'' # []"
    by simp
  have absent: "\<forall>t\<in>set [''video'']. map_of (attrs (photo_message 9)) t = None"
    by (simp add: photo_message_def)
  have rest: "present_types (photo_message 9) [] = []"
    by (simp add: present_types_def)
  have present: "map_of (attrs (photo_message 9)) ''photo'' = Some photo_obj"
    by (simp add: photo_message_def)
  have allowed: "can_download ''photo'' (file_formats sample_config) None = Inr True"
    by (simp add: can_download_def)
  have path: "?f \<noteq> []" by simp
  have cid: "str_int (chat (photo_message 9)) = ''7''" by code_simp
  have empty: "client_download_media (sample_env saves_empty []) (clock init_state) (photo_message 9)
      (target_name (sample_env saves_empty [])
         (snd (get_media_meta (sample_env saves_empty []) photo_obj ''photo''
                 (str_int (chat (photo_message 9))) (msg_id (photo_message 9)) init_state)) ?f)
      = Saved ?f 0"
    unfolding photo_target by (simp add: sample_env_def saves_empty_def)
  have full: "client_download_media (sample_env saves_600 []) (clock init_state) (photo_message 9)
      (target_name (sample_env saves_600 [])
         (snd (get_media_meta (sample_env saves_600 []) photo_obj ''photo''
                 (str_int (chat (photo_message 9))) (msg_id (photo_message 9)) init_state)) ?f)
      = Saved ?f 600"
    unfolding photo_target by (simp add: sample_env_def saves_600_def)
  have a: "\<exists>st' p. download_media (sample_env saves_empty []) (photo_message 9) [''video'', ''photo'']
               (file_formats sample_config) init_state = (9, st')
      \<and> files st' ?f = None
      \<and> FAILED_IDS st' = [9] \<and> DOWNLOADED_IDS st' = []
      \<and> trace st' =
           [DownloadCall 9 p, LogError (FileIsEmpty ?f), Remove ?f,
            LogError (FailedTooSmallOrEmpty ?f 9 ''7'')]"
    using download_media_validates_file
            [OF has_media types absent rest present photo_meta allowed empty path, unfolded cid]
    by (simp add: photo_message_def init_state_def)
  have b: "\<exists>st' p. download_media (sample_env saves_600 []) (photo_message 9) [''video'', ''photo'']
               (file_formats sample_config) init_state = (9, st')
      \<and> DOWNLOADED_IDS st' = [9] \<and> FAILED_IDS st' = []
      \<and> trace st' = [DownloadCall 9 p, LogInfo (DownloadedSuccessfully ?f 9 0)]"
    using download_media_validates_file
            [OF has_media types absent rest present photo_meta allowed full path, unfolded cid]
    by (simp add: photo_message_def init_state_def sample_env_def)
  from a b show ?thesis by (rule conjI)
qed

section \<open>\<open>process_messages\<close>: what a batch records\<close>

text \<open>
  The last round of the retry loop is the one with \<open>retry = 2\<close>; before it no handler
  records a failure and goes on.
\<close>

lemma for_retry_records:
  assumes "refetch_ok e mtypes" and "2 \<notin> set rs"
    and "length (present_types msg mtypes) \<le> 1"
  shows "at_most_once message_id st (snd (for_retry e mtypes formats cid message_id (rs @ [2]) msg st))"
  using assms(2,3)
proof (induction rs arbitrary: msg st)
  case Nil
  show ?case
  proof (cases "media msg = None")
    case True
    then show ?thesis by (simp add: at_most_once_def adds_refl)
  next
    case False
    note nm = this
    obtain r st1 where f: "for_media_types e msg cid message_id formats mtypes st = (r, st1)"
      by (cases "for_media_types e msg cid message_id formats mtypes st")
    note rec = for_media_types_records [OF Nil(2) f]
    show ?thesis
    proof (cases r)
      case None
      with f rec show ?thesis by (auto simp: nm at_most_once_def)
    next
      case (Some ex)
      with rec have same: "FAILED_IDS st1 = FAILED_IDS st" "DOWNLOADED_IDS st1 = DOWNLOADED_IDS st"
        by (simp_all add: adds_def)
      from f Some same show ?thesis
        by (cases ex)
           (simp_all add: nm at_most_once_def adds_def Let_def call_get_messages_def)
    qed
  qed
next
  case (Cons retry rs)
  then have r2: "retry \<noteq> 2" and rs2: "2 \<notin> set rs" by auto
  show ?case
  proof (cases "media msg = None")
    case True
    then show ?thesis by (simp add: at_most_once_def adds_refl)
  next
    case False
    note nm = this
    obtain r st1 where f: "for_media_types e msg cid message_id formats mtypes st = (r, st1)"
      by (cases "for_media_types e msg cid message_id formats mtypes st")
    note rec = for_media_types_records [OF Cons.prems(2) f]
    show ?thesis
    proof (cases r)
      case None
      with f rec show ?thesis by (auto simp: nm at_most_once_def)
    next
      case (Some ex)
      with rec have same: "FAILED_IDS st1 = FAILED_IDS st" "DOWNLOADED_IDS st1 = DOWNLOADED_IDS st"
        by (simp_all add: adds_def)
      show ?thesis
      proof (cases "ex = BadRequest \<or> ex = TypeError")
        case False
        with f Some same show ?thesis
          by (cases ex) (simp_all add: nm at_most_once_def adds_def)
      next
        case True
        then show ?thesis
        proof
          assume ex: "ex = BadRequest"
          let ?msg' = "client_get_messages e (clock st1) (chat msg) message_id"
          let ?st2 = "snd (call_get_messages e (chat msg) message_id st1)"
          from assms(1) have one: "length (present_types ?msg' mtypes) \<le> 1"
            by (simp add: refetch_ok_def)
          have "at_most_once message_id ?st2
                  (snd (for_retry e mtypes formats cid message_id (rs @ [2]) ?msg' ?st2))"
            by (rule Cons.IH [OF rs2 one])
          then have "at_most_once message_id st
                  (snd (for_retry e mtypes formats cid message_id (rs @ [2]) ?msg' ?st2))"
            by (rule at_most_once_shift [rotated 2]) (simp_all add: call_get_messages_simps same)
          with f Some ex r2 show ?thesis
            by (simp add: nm Let_def call_get_messages_def)
        next
          assume ex: "ex = TypeError"
          let ?st2 = "emit (Sleep 5) st1"
          have "at_most_once message_id ?st2
                  (snd (for_retry e mtypes formats cid message_id (rs @ [2]) msg ?st2))"
            by (rule Cons.IH [OF rs2 Cons.prems(2)])
          then have "at_most_once message_id st
                  (snd (for_retry e mtypes formats cid message_id (rs @ [2]) msg ?st2))"
            by (rule at_most_once_shift [rotated 2]) (simp_all add: same)
          with f Some ex r2 show ?thesis
            by (simp add: nm Let_def)
        qed
      qed
    qed
  qed
qed

lemma for_retry_returns_id:
  assumes "refetch_ok e mtypes"
  shows "msg_id msg = message_id \<Longrightarrow>
         fst (for_retry e mtypes formats cid message_id rs msg st) = message_id"
proof (induction rs arbitrary: msg st)
  case Nil
  then show ?case by simp
next
  case (Cons retry rs)
  from assms have id: "\<And>t c. msg_id (client_get_messages e t c message_id) = message_id"
    by (simp add: refetch_ok_def)
  show ?case
  proof (cases "for_media_types e msg cid message_id formats mtypes st")
    case (Pair r st1)
    show ?thesis
    proof (cases r)
      case None
      with Pair Cons.prems show ?thesis by simp
    next
      case (Some ex)
      with Pair Cons.prems Cons.IH id show ?thesis
        by (cases ex) (simp_all add: Let_def call_get_messages_def)
    qed
  qed
qed

lemma download_media_records:
  assumes "refetch_ok e mtypes" and "length (present_types msg mtypes) \<le> 1"
  shows "at_most_once (msg_id msg) st (snd (download_media e msg mtypes formats st))"
proof -
  have "at_most_once (msg_id msg) st
          (snd (for_retry e mtypes formats (str_int (chat msg)) (msg_id msg) ([0, 1] @ [2]) msg st))"
    by (rule for_retry_records [OF assms(1) _ assms(2)]) simp
  then show ?thesis by (simp add: download_media_def)
qed

lemma download_media_returns_id:
  "refetch_ok e mtypes \<Longrightarrow> fst (download_media e msg mtypes formats st) = msg_id msg"
  unfolding download_media_def by (rule for_retry_returns_id) simp_all

lemma gather_Cons:
  "fst (gather e (msg # rest) mtypes formats st)
     = fst (download_media e msg mtypes formats st)
       # fst (gather e rest mtypes formats (snd (download_media e msg mtypes formats st)))"
  "snd (gather e (msg # rest) mtypes formats st)
     = snd (gather e rest mtypes formats (snd (download_media e msg mtypes formats st)))"
  by (simp_all split: prod.splits)

lemma gather_ids:
  "refetch_ok e mtypes \<Longrightarrow> fst (gather e messages mtypes formats st) = map msg_id messages"
proof (induction messages arbitrary: st)
  case Nil
  then show ?case by simp
next
  case (Cons msg rest)
  have "fst (gather e (msg # rest) mtypes formats st)
          = fst (download_media e msg mtypes formats st)
            # fst (gather e rest mtypes formats (snd (download_media e msg mtypes formats st)))"
    by (simp split: prod.splits)
  with Cons show ?case by (simp add: download_media_returns_id)
qed

lemma gather_length: "length (fst (gather e messages mtypes formats st)) = length messages"
proof (induction messages arbitrary: st)
  case Nil
  then show ?case by simp
next
  case (Cons msg rest)
  then show ?case by (simp only: gather_Cons list.size)
qed

lemma gather_records:
  assumes "refetch_ok e mtypes"
  shows "\<forall>m\<in>set messages. length (present_types m mtypes) \<le> 1 \<Longrightarrow>
         distinct (map msg_id messages) \<Longrightarrow>
         \<exists>failed downloaded.
            adds st (snd (gather e messages mtypes formats st)) failed downloaded
            \<and> distinct (failed @ downloaded)
            \<and> set (failed @ downloaded) \<subseteq> set (map msg_id messages)"
proof (induction messages arbitrary: st)
  case Nil
  have "adds st st [] []" by (rule adds_refl)
  then show ?case by auto
next
  case (Cons msg rest)
  let ?st1 = "snd (download_media e msg mtypes formats st)"
  let ?st2 = "snd (gather e rest mtypes formats ?st1)"
  have step: "snd (gather e (msg # rest) mtypes formats st) = ?st2"
    by (simp split: prod.splits)
  from Cons.prems have one: "length (present_types msg mtypes) \<le> 1" by simp
  have "at_most_once (msg_id msg) st ?st1"
    by (rule download_media_records [OF assms one])
  then consider "adds st ?st1 [] []" | "adds st ?st1 [msg_id msg] []" | "adds st ?st1 [] [msg_id msg]"
    unfolding at_most_once_def by blast
  then obtain f1 d1 where a1: "adds st ?st1 f1 d1" and s1: "f1 @ d1 = [] \<or> f1 @ d1 = [msg_id msg]"
  proof cases
    case 1
    then show ?thesis using that [of "[]" "[]"] by simp
  next
    case 2
    then show ?thesis using that [of "[msg_id msg]" "[]"] by simp
  next
    case 3
    then show ?thesis using that [of "[]" "[msg_id msg]"] by simp
  qed
  from Cons.prems have "\<forall>m\<in>set rest. length (present_types m mtypes) \<le> 1"
    and "distinct (map msg_id rest)" by simp_all
  from Cons.IH [OF this]
  obtain f2 d2 where a2: "adds ?st1 ?st2 f2 d2" and dist: "distinct (f2 @ d2)"
    and sub: "set (f2 @ d2) \<subseteq> set (map msg_id rest)"
    by blast
  from Cons.prems(2) have new: "msg_id msg \<notin> set (map msg_id rest)" by simp
  have "adds st ?st2 (f1 @ f2) (d1 @ d2)" by (rule adds_trans [OF a1 a2])
  moreover from s1 dist sub new have "distinct ((f1 @ f2) @ (d1 @ d2))"
    by (auto simp: append_eq_Cons_conv)
  moreover from s1 sub have "set ((f1 @ f2) @ (d1 @ d2)) \<subseteq> set (map msg_id (msg # rest))"
    by (auto simp: append_eq_Cons_conv)
  ultimately show ?case unfolding step by blast
qed

lemma process_messages_snd:
  "snd (process_messages e messages mtypes formats st) =
     snd (gather e messages mtypes formats (emit (Gather (map msg_id messages)) st))"
  by (simp add: process_messages_def split: prod.splits)

lemma process_messages_fst:
  "fst (process_messages e messages mtypes formats st)
     = py_max (fst (gather e messages mtypes formats (emit (Gather (map msg_id messages)) st)))"
  by (simp add: process_messages_def split: prod.splits)

text \<open>
  C9, as stated: within one batch no id is recorded twice, nor in both lists. A batch
  that holds the message 9 twice (the retry list that \<open>update_config\<close> writes can name an
  id twice, see \<open>update_config_repeats_failed_ids\<close>) records the id once in
  \<open>FAILED_IDS\<close>, for the empty file of the first download, and once in
  \<open>DOWNLOADED_IDS\<close>, for the second.
\<close>

theorem process_messages_repeated_id_counterexample:
  "FAILED_IDS (snd (process_messages (sample_env empty_then_full [])
       [photo_message 9, photo_message 9] [''photo''] (file_formats sample_config) init_state)) = [9]
   \<and> DOWNLOADED_IDS (snd (process_messages (sample_env empty_then_full [])
       [photo_message 9, photo_message 9] [''photo''] (file_formats sample_config) init_state)) = [9]"
  by code_simp

text \<open>
  C9, amended: when the ids of the batch are distinct, every message of the batch carries
  at most one of the configured media types and a fetch by id answers with such a message
  of that id, then \<open>asyncio.gather\<close> returns exactly one id per message, the ids of the
  messages in their order, and \<open>process_messages\<close> appends each id of the batch at most
  once to \<open>FAILED_IDS\<close> and \<open>DOWNLOADED_IDS\<close> taken together: a message is recorded as
  failed, or as downloaded, or not at all.
\<close>

theorem process_messages_one_record_each:
  assumes "refetch_ok e mtypes"
    and "\<forall>m\<in>set messages. length (present_types m mtypes) \<le> 1"
    and "distinct (map msg_id messages)"
  shows "fst (gather e messages mtypes formats st) = map msg_id messages
       \<and> (\<exists>failed downloaded.
            adds st (snd (process_messages e messages mtypes formats st)) failed downloaded
            \<and> distinct (failed @ downloaded)
            \<and> set (failed @ downloaded) \<subseteq> set (map msg_id messages))"
proof
  show "fst (gather e messages mtypes formats st) = map msg_id messages"
    by (rule gather_ids [OF assms(1)])
  from gather_records [OF assms, where formats = formats and st = "emit (Gather (map msg_id messages)) st"]
  show "\<exists>failed downloaded.
            adds st (snd (process_messages e messages mtypes formats st)) failed downloaded
            \<and> distinct (failed @ downloaded)
            \<and> set (failed @ downloaded) \<subseteq> set (map msg_id messages)"
    by (simp only: process_messages_snd adds_emit)
qed

lemma refetch_ok_sample: "refetch_ok (sample_env transfer history) [''photo'', ''video'']"
  by (simp add: refetch_ok_def sample_env_def photo_message_def present_types_def)

text \<open>C9 at the batch of a photo message 1 and a text message 2.\<close>

theorem process_messages_one_record_each_witness:
  "fst (gather (sample_env saves_600 []) [photo_message 1, text_message 2] [''photo'', ''video'']
          (file_formats sample_config) init_state) = [1, 2]
   \<and> (\<exists>failed downloaded.
        adds init_state
          (snd (process_messages (sample_env saves_600 []) [photo_message 1, text_message 2]
                  [''photo'', ''video''] (file_formats sample_config) init_state))
          failed downloaded
        \<and> distinct (failed @ downloaded)
        \<and> set (failed @ downloaded) \<subseteq> {1, 2})"
proof -
  have one: "\<forall>m\<in>set [photo_message 1, text_message 2]. length (present_types m [''photo'', ''video'']) \<le> 1"
    by (simp add: photo_message_def text_message_def present_types_def)
  have dist: "distinct (map msg_id [photo_message 1, text_message 2])"
    by (simp add: photo_message_def text_message_def)
  from process_messages_one_record_each [OF refetch_ok_sample one dist,
      of saves_600 "[]" "file_formats sample_config" init_state]
  show ?thesis by (simp add: photo_message_def text_message_def)
qed

section \<open>\<open>begin_import\<close>: the batches\<close>

text \<open>
  C3. 250 text messages with the ids 1 to 250, no retry backlog, batch size 100. The
  configuration is written twice in the loop, but with the cursors 100 and 201, not 100
  and 200: after a dispatch \<open>messages_list\<close> is started with the current message while
  \<open>pagination_count\<close> is set to 0, so the second batch holds 101 messages and 49 are left
  for the final one.
\<close>

theorem begin_import_250_messages:
  "checkpoint_cursors (trace (snd (begin_import (sample_env saves_600 (text_messages 1 251))
       sample_config 100 init_state))) = [100, 201]
   \<and> batch_sizes (trace (snd (begin_import (sample_env saves_600 (text_messages 1 251))
       sample_config 100 init_state))) = [100, 101, 49]"
  by code_simp

text \<open>
  C6. A retry backlog of one message (id 1), 201 text messages with the ids 2 to 202,
  batch size 100. The backlog message is the first of the first batch, before the
  messages of the history, and counts towards its 100 messages; but the second batch,
  dispatched before the final one, holds 101 messages, one more than the batch size.
\<close>

theorem begin_import_backlog_of_one:
  "map (take 2) (batches (trace (snd (begin_import (sample_env saves_600 (text_messages 2 203))
       (sample_config\<lparr>ids_to_retry := [1]\<rparr>) 100 init_state)))) = [[1, 2], [101, 102], [202]]
   \<and> batch_sizes (trace (snd (begin_import (sample_env saves_600 (text_messages 2 203))
       (sample_config\<lparr>ids_to_retry := [1]\<rparr>) 100 init_state))) = [100, 101, 1]"
  by code_simp

text \<open>
  A backlog longer than the batch size is never dispatched in the loop, since
  \<open>pagination_count\<close> is compared with \<open>!=\<close> and has passed the limit: everything goes
  into the final batch.
\<close>

lemma begin_import_backlog_over_cap:
  "batch_sizes (trace (snd (begin_import (sample_env saves_600 (text_messages 10 15))
       (sample_config\<lparr>ids_to_retry := [1, 2, 3]\<rparr>) 2 init_state))) = [8]"
  by code_simp

section \<open>\<open>process_messages\<close> is called with non-empty batches\<close>

lemma batches_append [simp]: "batches (xs @ ys) = batches xs @ batches ys"
  by (induction xs rule: batches.induct) simp_all

lemma get_media_meta_batches:
  "batches (trace (snd (get_media_meta e mobj mtype cid message_id st))) = batches (trace st)"
  by (simp add: get_media_meta_snd)

lemma download_type_batches:
  "batches (trace (snd (download_type e msg cid message_id formats mtype st))) = batches (trace st)"
proof (cases "map_of (attrs msg) mtype")
  case None
  then show ?thesis by (simp add: download_type_absent)
next
  case (Some mobj)
  obtain r1 st1 where m: "get_media_meta e mobj mtype cid message_id st = (r1, st1)"
    by (cases "get_media_meta e mobj mtype cid message_id st")
  have t1: "trace st1 = trace st"
    using get_media_meta_snd(5) [of e mobj mtype cid message_id st] m by simp
  show ?thesis
  proof (cases r1)
    case (Inl ex)
    with Some m t1 show ?thesis by (simp add: download_type_def)
  next
    case (Inr meta)
    obtain fname file_format where meta: "meta = (fname, file_format)" by (cases meta)
    show ?thesis
    proof (cases "can_download mtype formats file_format = Inr True")
      case False
      with Some m t1 Inr meta show ?thesis
        by (auto simp: download_type_def split: sum.splits bool.splits)
    next
      case True
      obtain r2 st2 where c: "call_download_media e msg (target_name e st1 fname) st1 = (r2, st2)"
        by (cases "call_download_media e msg (target_name e st1 fname) st1")
      have t2: "batches (trace st2) = batches (trace st)"
        using call_download_media_snd(6) [of e msg "target_name e st1 fname" st1] c t1 by simp
      note dt = download_type_transfer [OF Some m [unfolded Inr meta] True c]
      show ?thesis
      proof (cases r2)
        case (Raises ex)
        with dt t2 show ?thesis by simp
      next
        case NoPath
        with dt t2 show ?thesis by simp
      next
        case (Saved p n)
        have t3: "batches (trace (snd (is_valid_file p 512 st2))) = batches (trace st)"
          using t2 by (simp add: is_valid_file_def split: option.splits)
        obtain r3 st3 where v: "is_valid_file p 512 st2 = (r3, st3)"
          by (cases "is_valid_file p 512 st2")
        with t3 have t3': "batches (trace st3) = batches (trace st)" by simp
        from dt Saved v t2 t3' show ?thesis
          by (auto simp: Let_def split: sum.splits bool.splits prod.splits)
      qed
    qed
  qed
qed

lemma for_media_types_batches:
  "batches (trace (snd (for_media_types e msg cid message_id formats mtypes st))) = batches (trace st)"
proof (induction mtypes arbitrary: st)
  case Nil
  then show ?case by simp
next
  case (Cons mtype rest)
  obtain r1 st1 where d: "download_type e msg cid message_id formats mtype st = (r1, st1)"
    by (cases "download_type e msg cid message_id formats mtype st")
  with download_type_batches [of e msg cid message_id formats mtype st]
  have "batches (trace st1) = batches (trace st)" by simp
  with d Cons [of st1] show ?case by (cases r1) simp_all
qed

lemma for_retry_batches:
  "batches (trace (snd (for_retry e mtypes formats cid message_id rs msg st))) = batches (trace st)"
proof (induction rs arbitrary: msg st)
  case Nil
  then show ?case by simp
next
  case (Cons retry rs)
  obtain r st1 where f: "for_media_types e msg cid message_id formats mtypes st = (r, st1)"
    by (cases "for_media_types e msg cid message_id formats mtypes st")
  with for_media_types_batches [of e msg cid message_id formats mtypes st]
  have t1: "batches (trace st1) = batches (trace st)" by simp
  show ?case
  proof (cases r)
    case None
    with f t1 show ?thesis by simp
  next
    case (Some ex)
    with f t1 Cons show ?thesis
      by (cases ex) (simp_all add: Let_def call_get_messages_def)
  qed
qed

lemma download_media_batches:
  "batches (trace (snd (download_media e msg mtypes formats st))) = batches (trace st)"
  unfolding download_media_def by (rule for_retry_batches)

lemma gather_batches:
  "batches (trace (snd (gather e messages mtypes formats st))) = batches (trace st)"
proof (induction messages arbitrary: st)
  case Nil
  then show ?case by simp
next
  case (Cons msg rest)
  have "snd (gather e (msg # rest) mtypes formats st)
          = snd (gather e rest mtypes formats (snd (download_media e msg mtypes formats st)))"
    by (simp split: prod.splits)
  then show ?case by (simp only: Cons download_media_batches)
qed

lemma py_max_nonempty: "xs \<noteq> [] \<Longrightarrow> py_max xs = Inr (Max (set xs))"
proof (cases xs)
  case Nil
  assume "xs \<noteq> []"
  with Nil show ?thesis by simp
next
  case (Cons x rest)
  then show ?thesis using Max.set_eq_fold [of x rest] by (simp add: py_max_def)
qed

lemma process_messages_batches:
  "batches (trace (snd (process_messages e messages mtypes formats st)))
     = batches (trace st) @ [map msg_id messages]"
  by (simp add: process_messages_snd gather_batches)

lemma process_messages_empty:
  "process_messages e [] mtypes formats st = (Inl ValueError, emit (Gather []) st)"
  by (simp add: process_messages_def py_max_def)

lemma process_messages_nonempty:
  assumes "messages \<noteq> []"
  shows "fst (process_messages e messages mtypes formats st)
     = Inr (Max (set (fst (gather e messages mtypes formats (emit (Gather (map msg_id messages)) st)))))"
proof -
  have "length (fst (gather e messages mtypes formats (emit (Gather (map msg_id messages)) st))) \<noteq> 0"
    using assms by (simp add: gather_length)
  then have "fst (gather e messages mtypes formats (emit (Gather (map msg_id messages)) st)) \<noteq> []"
    by simp
  then show ?thesis by (simp add: process_messages_fst py_max_nonempty)
qed

lemma update_config_batches:
  "batches (trace (snd (update_config e cfg cid st))) = batches (trace st)"
  by (simp add: update_config_def Let_def)

text \<open>
  The loop over the history: while \<open>messages_list\<close> is empty \<open>pagination_count\<close> is 0, so
  with a limit other than 0 the batch dispatched at \<open>pagination_count = pagination_limit\<close>
  is not empty.
\<close>

lemma for_messages_iter_no_error:
  assumes "pagination_limit \<noteq> 0"
  shows "(messages_list = [] \<longrightarrow> pagination_count = 0) \<Longrightarrow>
         [] \<notin> set (batches (trace st)) \<Longrightarrow>
         \<exists>cfg' last' ml' pc'.
           fst (for_messages_iter e pagination_limit history cfg last_read messages_list pagination_count st)
             = Inr (cfg', last', ml', pc')
           \<and> [] \<notin> set (batches (trace (snd (for_messages_iter e pagination_limit history cfg last_read
                                                 messages_list pagination_count st))))"
proof (induction history arbitrary: cfg last_read messages_list pagination_count st)
  case Nil
  then show ?case by simp
next
  case (Cons msg rest)
  show ?case
  proof (cases "pagination_count = pagination_limit")
    case False
    have "\<exists>cfg' last' ml' pc'.
           fst (for_messages_iter e pagination_limit rest cfg last_read (messages_list @ [msg])
                  (pagination_count + 1) st) = Inr (cfg', last', ml', pc')
           \<and> [] \<notin> set (batches (trace (snd (for_messages_iter e pagination_limit rest cfg last_read
                                                 (messages_list @ [msg]) (pagination_count + 1) st))))"
      by (rule Cons.IH) (simp_all add: Cons.prems)
    with False show ?thesis by simp
  next
    case True
    with assms Cons.prems(1) have ne: "messages_list \<noteq> []" by auto
    let ?pm = "process_messages e messages_list (media_types cfg) (file_formats cfg) st"
    from process_messages_nonempty [OF ne]
    obtain v where v: "fst ?pm = Inr v" by blast
    have b1: "[] \<notin> set (batches (trace (snd ?pm)))"
      using Cons.prems(2) ne by (simp add: process_messages_batches)
    let ?cfg1 = "cfg\<lparr>last_read_message_id := v\<rparr>"
    let ?uc = "update_config e ?cfg1 (str_int (chat_id ?cfg1)) (snd ?pm)"
    have b2: "[] \<notin> set (batches (trace (snd ?uc)))"
      using b1 by (simp add: update_config_batches)
    have "\<exists>cfg' last' ml' pc'.
           fst (for_messages_iter e pagination_limit rest (fst ?uc) v [msg] 0 (snd ?uc))
             = Inr (cfg', last', ml', pc')
           \<and> [] \<notin> set (batches (trace (snd (for_messages_iter e pagination_limit rest (fst ?uc) v
                                                 [msg] 0 (snd ?uc)))))"
      by (rule Cons.IH) (use b2 in simp_all)
    moreover have "for_messages_iter e pagination_limit (msg # rest) cfg last_read messages_list
                     pagination_count st
                   = for_messages_iter e pagination_limit rest (fst ?uc) v [msg] 0 (snd ?uc)"
      using True v by (cases ?pm) (simp add: Let_def split: prod.splits)
    ultimately show ?thesis by simp
  qed
qed

lemma begin_import_no_error:
  assumes "pagination_limit \<noteq> 0" and "[] \<notin> set (batches (trace st))"
  shows "(\<exists>cfg'. fst (begin_import e cfg pagination_limit st) = Inr cfg')
       \<and> [] \<notin> set (batches (trace (snd (begin_import e cfg pagination_limit st))))"
proof -
  define st0 where "st0 = st\<lparr>TOTAL_FILES := count_total_files e (chat_id cfg)\<rparr>"
  define skipped where "skipped = (if ids_to_retry cfg \<noteq> []
                  then client_get_messages_list e (chat_id cfg) (ids_to_retry cfg) else [])"
  define loop where "loop = for_messages_iter e pagination_limit
                 (client_get_chat_history e (chat_id cfg) (last_read_message_id cfg)) cfg
                 (last_read_message_id cfg) skipped (int (length skipped)) st0"
  have unfold: "begin_import e cfg pagination_limit st =
      (case loop of
         (Inl ex, st1) \<Rightarrow> (Inl ex, st1)
       | (Inr (cfg1, last_read1, messages_list, pagination_count), st1) \<Rightarrow>
           if messages_list \<noteq> [] then
             (case process_messages e messages_list (media_types cfg1) (file_formats cfg1) st1 of
                (Inl ex, st2) \<Rightarrow> (Inl ex, st2)
              | (Inr last_read2, st2) \<Rightarrow> (Inr (cfg1\<lparr>last_read_message_id := last_read2\<rparr>), st2))
           else (Inr (cfg1\<lparr>last_read_message_id := last_read1\<rparr>), st1))"
    by (simp only: begin_import_def Let_def loop_def skipped_def st0_def)
  have "[] \<notin> set (batches (trace st0))"
    using assms(2) by (simp add: st0_def)
  then have "\<exists>cfg' last' ml' pc'. fst loop = Inr (cfg', last', ml', pc')
          \<and> [] \<notin> set (batches (trace (snd loop)))"
    unfolding loop_def by (intro for_messages_iter_no_error [OF assms(1)]) simp_all
  then obtain cfg1 last1 ml1 pc1 where l: "fst loop = Inr (cfg1, last1, ml1, pc1)"
    and b: "[] \<notin> set (batches (trace (snd loop)))" by blast
  then have loop: "loop = (Inr (cfg1, last1, ml1, pc1), snd loop)"
    by (simp add: prod_eq_iff)
  show ?thesis
  proof (cases "ml1 = []")
    case True
    have "begin_import e cfg pagination_limit st
            = (Inr (cfg1\<lparr>last_read_message_id := last1\<rparr>), snd loop)"
      by (subst unfold, subst loop) (simp add: True)
    with b show ?thesis by simp
  next
    case False
    let ?pm = "process_messages e ml1 (media_types cfg1) (file_formats cfg1) (snd loop)"
    from process_messages_nonempty [OF False]
    obtain v where v: "fst ?pm = Inr v" by blast
    then have pm: "?pm = (Inr v, snd ?pm)" by (simp add: prod_eq_iff)
    have b2: "[] \<notin> set (batches (trace (snd ?pm)))"
      using b False by (simp add: process_messages_batches)
    have "begin_import e cfg pagination_limit st
            = (Inr (cfg1\<lparr>last_read_message_id := v\<rparr>), snd ?pm)"
      by (subst unfold, subst loop, simp add: False, subst pm, simp)
    with b2 show ?thesis by simp
  qed
qed

text \<open>
  C10. \<open>process_messages\<close> raises \<open>ValueError\<close> on the empty list, and on a non-empty one
  it returns the maximum of the ids that the downloads return, which are the ids of the
  messages when a fetch by id keeps the id. \<open>begin_import\<close> with a batch size other than
  0 dispatches non-empty batches only and so does not raise; \<open>main\<close> calls it with 100.
\<close>

theorem process_messages_nonempty_batches:
  "fst (process_messages e [] mtypes formats st) = Inl ValueError
   \<and> (messages \<noteq> [] \<longrightarrow>
        fst (process_messages e messages mtypes formats st)
          = Inr (Max (set (fst (gather e messages mtypes formats (emit (Gather (map msg_id messages)) st))))))
   \<and> (messages \<noteq> [] \<and> refetch_ok e mtypes \<longrightarrow>
        fst (process_messages e messages mtypes formats st) = Inr (Max (msg_id ` set messages)))
   \<and> (pagination_limit \<noteq> 0 \<and> [] \<notin> set (batches (trace st)) \<longrightarrow>
        (\<exists>cfg'. fst (begin_import e cfg pagination_limit st) = Inr cfg')
        \<and> [] \<notin> set (batches (trace (snd (begin_import e cfg pagination_limit st)))))
   \<and> ([] \<notin> set (batches (trace st)) \<longrightarrow> (\<exists>cfg'. fst (main e cfg st) = Inr cfg'))"
proof (intro conjI impI)
  show "fst (process_messages e [] mtypes formats st) = Inl ValueError"
    by (simp add: process_messages_empty)
next
  assume "messages \<noteq> []"
  then show "fst (process_messages e messages mtypes formats st)
          = Inr (Max (set (fst (gather e messages mtypes formats (emit (Gather (map msg_id messages)) st)))))"
    by (rule process_messages_nonempty)
next
  assume a: "messages \<noteq> [] \<and> refetch_ok e mtypes"
  then have "fst (process_messages e messages mtypes formats st)
          = Inr (Max (set (fst (gather e messages mtypes formats (emit (Gather (map msg_id messages)) st)))))"
    by (simp add: process_messages_nonempty)
  with a show "fst (process_messages e messages mtypes formats st) = Inr (Max (msg_id ` set messages))"
    by (simp add: gather_ids)
next
  assume a: "pagination_limit \<noteq> 0 \<and> [] \<notin> set (batches (trace st))"
  then show "\<exists>cfg'. fst (begin_import e cfg pagination_limit st) = Inr cfg'"
    using begin_import_no_error [of pagination_limit st e cfg] by simp
  from a show "[] \<notin> set (batches (trace (snd (begin_import e cfg pagination_limit st))))"
    using begin_import_no_error [of pagination_limit st e cfg] by simp
next
  assume a: "[] \<notin> set (batches (trace st))"
  then have "[] \<notin> set (batches (trace (emit (LogInfo ScriptStarted) st)))" by simp
  with begin_import_no_error [of 100 "emit (LogInfo ScriptStarted) st" e cfg]
  obtain cfg1 where "fst (begin_import e cfg 100 (emit (LogInfo ScriptStarted) st)) = Inr cfg1"
    by auto
  then show "\<exists>cfg'. fst (main e cfg st) = Inr cfg'"
    by (simp add: main_def Let_def case_prod_beta)
qed

text \<open>C10 at a batch of two text messages and at a history of three, with the batch size 100.\<close>

theorem process_messages_nonempty_batches_witness:
  "fst (process_messages (sample_env saves_600 (text_messages 1 4)) []
          [''photo'', ''video''] (file_formats sample_config) init_state) = Inl ValueError
   \<and> fst (process_messages (sample_env saves_600 (text_messages 1 4)) [text_message 3, text_message 5]
          [''photo'', ''video''] (file_formats sample_config) init_state) = Inr 5
   \<and> (\<exists>cfg'. fst (begin_import (sample_env saves_600 (text_messages 1 4)) sample_config 100 init_state)
                = Inr cfg')
   \<and> [] \<notin> set (batches (trace (snd (begin_import (sample_env saves_600 (text_messages 1 4))
                                        sample_config 100 init_state))))
   \<and> (\<exists>cfg'. fst (main (sample_env saves_600 (text_messages 1 4)) sample_config init_state) = Inr cfg')"
proof -
  let ?e = "sample_env saves_600 (text_messages 1 4)"
  note inst = process_messages_nonempty_batches
          [of ?e "[''photo'', ''video'']" "file_formats sample_config" init_state
              "[text_message 3, text_message 5]" 100 sample_config]
  have ne: "[text_message 3, text_message 5] \<noteq> []" by simp
  have ok: "refetch_ok ?e [''photo'', ''video'']" by (rule refetch_ok_sample)
  have limit: "(100 :: int) \<noteq> 0" by simp
  have clean: "[] \<notin> set (batches (trace init_state))" by (simp add: init_state_def)
  have five: "Max (msg_id ` set [text_message 3, text_message 5]) = 5"
    by (simp add: text_message_def)
  from inst have "fst (process_messages ?e [] [''photo'', ''video''] (file_formats sample_config)
                         init_state) = Inl ValueError"
    by (rule conjunct1)
  moreover from inst ne ok
  have "fst (process_messages ?e [text_message 3, text_message 5] [''photo'', ''video'']
               (file_formats sample_config) init_state)
          = Inr (Max (msg_id ` set [text_message 3, text_message 5]))"
    by blast
  moreover from inst limit clean
  have "(\<exists>cfg'. fst (begin_import ?e sample_config 100 init_state) = Inr cfg')
        \<and> [] \<notin> set (batches (trace (snd (begin_import ?e sample_config 100 init_state))))"
    by blast
  moreover from inst clean
  have "\<exists>cfg'. fst (main ?e sample_config init_state) = Inr cfg'"
    by blast
  ultimately show ?thesis by (simp only: five) blast
qed

text \<open>With the batch size 0 the first message of the history dispatches the empty batch.\<close>

lemma begin_import_limit_zero:
  "fst (begin_import (sample_env saves_600 (text_messages 1 4)) sample_config 0 init_state)
     = Inl ValueError"
  by code_simp

end
